theory Spec2Isabelle
  imports Main
begin

section \<open>Data model of the task engine (src/core/engine.ts)\<close>

text \<open>
  Times are the millisecond values of \<^verbatim>\<open>Date.now()\<close>, modelled as \<open>int\<close>.
  The engine reads the clock from the field \<open>now\<close>; the environment advances it.
  Identifiers made by \<^verbatim>\<open>uuidv4()\<close> are drawn from a counter \<open>nextId\<close>, that is,
  uuids are taken to be fresh.
\<close>

type_synonym time = int

text \<open>A JavaScript string is a sequence of UTF-16 code units; \<open>ascii\<close> gives the code
  units of an ASCII literal.\<close>

type_synonym js_string = "nat list"

definition ascii :: "string \<Rightarrow> js_string" where
  "ascii str = map of_char str"

datatype kind = Memory | Cognition

datatype event_type = metamemory_event | metacognition_event

datatype operation = tagging_start | tagging_complete | analysis_start | analysis_complete

text \<open>The payload of a meta event; the serialized state snapshots are left out.\<close>

datatype event_data =
    MemoryStartData nat nat
  | MemoryCompleteData nat int
  | CognitionStartData nat
  | CognitionCompleteData nat int

record meta_event =
  ev_type :: event_type
  operation :: operation
  eventId :: nat
  ev_data :: event_data
  timestamp :: time

record message =
  msg_id :: "nat option"
  role :: string
  content :: js_string

text \<open>\<^verbatim>\<open>taskLocalState.memory\<close> and \<^verbatim>\<open>taskLocalState.cognition\<close>.\<close>

record proc_state =
  enabled :: bool
  processing :: bool
  lastProcessingStartTime :: "time option"

record cognition_state = proc_state +
  frequency :: int

text \<open>
  A timer variable of \<^verbatim>\<open>MetaProcessingTimers\<close>: \<open>NoTimer\<close> is \<^verbatim>\<open>null\<close>,
  \<open>Armed d\<close> a handle whose callback is due at \<open>d\<close>, \<open>Spent\<close> a handle whose timer has
  fired or was cleared while the variable still holds it.
\<close>

datatype timer = NoTimer | Armed time | Spent

text \<open>What \<^verbatim>\<open>console.warn\<close> and \<^verbatim>\<open>console.error\<close> record; the seconds of a stuck
  warning are \<^verbatim>\<open>Math.round(processingTime / 1000)\<close>, the flag of a failure says
  whether it was reported as a timeout.\<close>

datatype log_entry =
    StuckWarning kind int
  | ProcessingFailure kind bool

text \<open>A background operation with the values its closure captured: the correlation id
  of its start event and the time of its launch.\<close>

record pending_op =
  op_kind :: kind
  op_eventId :: nat
  processingStart :: time

text \<open>
  \<open>pendingAsyncOps\<close> is the set of tracked promises. \<open>outstandingCalls\<close> is not a
  variable of the code: it lists the calls of \<^verbatim>\<open>metamemory.processMessages\<close> and
  \<^verbatim>\<open>spawnMetaThought\<close> that have not returned yet. A call is not cancelled when its
  race is lost to the timeout or to the abort signal, so it can outlive its promise.
\<close>

record engine =
  now :: time
  nextId :: nat
  has_metamemory :: bool
  memory :: proc_state
  cognition :: cognition_state
  requestCount :: nat
  messages :: "message list"
  unprocessedMemoryMessages :: "message list"
  unprocessedCognitionMessages :: "message list"
  lastMemoryProcessTime :: time
  lastCognitionProcessTime :: time
  messagesSinceLastCognition :: nat
  memoryDebounceTimer :: timer
  cognitionDebounceTimer :: timer
  cognitionTimer :: timer
  asyncEventQueue :: "meta_event list"
  pendingAsyncOps :: "pending_op list"
  outstandingCalls :: "pending_op list"
  console :: "log_entry list"
  delivered :: "meta_event list"

definition or_else :: "'a option \<Rightarrow> 'a \<Rightarrow> 'a" where
  "or_else x d = (case x of None \<Rightarrow> d | Some v \<Rightarrow> v)"

section \<open>Stuck-state recovery\<close>

definition STUCK_THRESHOLD :: int where
  "STUCK_THRESHOLD = 2 * 60 * 1000"

text \<open>\<^verbatim>\<open>Math.round(ms / 1000)\<close> on an integer number of milliseconds: the nearest
  integer, a tie going up.\<close>

definition Math_round_seconds :: "int \<Rightarrow> int" where
  "Math_round_seconds ms = (ms + 500) div 1000"

text \<open>\<^verbatim>\<open>lastProcessingStartTime ? Date.now() - lastProcessingStartTime : 0\<close>; a
  start time is truthy when it is set and not \<open>0\<close>.\<close>

definition processingTime :: "time \<Rightarrow> time option \<Rightarrow> int" where
  "processingTime t st = (case st of None \<Rightarrow> 0 | Some t0 \<Rightarrow> if t0 = 0 then 0 else t - t0)"

datatype 'p recovery = NotProcessing | StillProcessing | ForcedReset 'p log_entry

text \<open>The check at the head of \<^verbatim>\<open>processMetaMemory\<close> and \<^verbatim>\<open>processMetaCognition\<close>
  (engine.ts 108-122 and 246-260).\<close>

definition trigger_stuck_check ::
  "kind \<Rightarrow> time \<Rightarrow> 'a proc_state_scheme \<Rightarrow> 'a proc_state_scheme recovery" where
  "trigger_stuck_check k t p =
     (if processing p then
        (if processingTime t (lastProcessingStartTime p) > STUCK_THRESHOLD
         then ForcedReset (p\<lparr>processing := False, lastProcessingStartTime := None\<rparr>)
                (StuckWarning k (Math_round_seconds (processingTime t (lastProcessingStartTime p))))
         else StillProcessing)
      else NotProcessing)"

text \<open>The check of \<^verbatim>\<open>runTask\<close> at task start and resume (engine.ts 537-547 and
  577-587).\<close>

definition resume_stuck_check ::
  "kind \<Rightarrow> time \<Rightarrow> 'a proc_state_scheme \<Rightarrow> 'a proc_state_scheme recovery" where
  "resume_stuck_check k t p =
     (if processing p then
        (case lastProcessingStartTime p of
           None \<Rightarrow> StillProcessing
         | Some t0 \<Rightarrow>
             if t0 = 0 then StillProcessing
             else if t - t0 > STUCK_THRESHOLD
             then ForcedReset (p\<lparr>processing := False, lastProcessingStartTime := None\<rparr>)
                    (StuckWarning k (Math_round_seconds (t - t0)))
             else StillProcessing)
      else NotProcessing)"

section \<open>Background supervisor\<close>

definition is_start :: "meta_event \<Rightarrow> bool" where
  "is_start e = (operation e = tagging_start \<or> operation e = analysis_start)"

definition is_complete :: "meta_event \<Rightarrow> bool" where
  "is_complete e = (operation e = tagging_complete \<or> operation e = analysis_complete)"

text \<open>engine.ts 129-230: the unprocessed queue is cleared, the start event is pushed with
  a new uuid, the flag and start time are set, the analysis is called and the racing
  promise is tracked.\<close>

definition launch_memory :: "engine \<Rightarrow> engine" where
  "launch_memory s =
     s\<lparr>unprocessedMemoryMessages := [],
       lastMemoryProcessTime := now s,
       asyncEventQueue := asyncEventQueue s @
         [\<lparr>ev_type = metamemory_event, operation = tagging_start, eventId = nextId s,
           ev_data = MemoryStartData (length (messages s)) (length (unprocessedMemoryMessages s)),
           timestamp = now s\<rparr>],
       memory := (memory s)\<lparr>processing := True, lastProcessingStartTime := Some (now s)\<rparr>,
       pendingAsyncOps := pendingAsyncOps s @
         [\<lparr>op_kind = Memory, op_eventId = nextId s, processingStart = now s\<rparr>],
       outstandingCalls := outstandingCalls s @
         [\<lparr>op_kind = Memory, op_eventId = nextId s, processingStart = now s\<rparr>],
       nextId := Suc (nextId s)\<rparr>"

definition processMetaMemory :: "engine \<Rightarrow> engine" where
  "processMetaMemory s =
     (if \<not> has_metamemory s \<or> \<not> enabled (memory s) then s
      else case trigger_stuck_check Memory (now s) (memory s) of
        StillProcessing \<Rightarrow> s
      | NotProcessing \<Rightarrow>
          if unprocessedMemoryMessages s = [] then s else launch_memory s
      | ForcedReset m w \<Rightarrow>
          (let s1 = s\<lparr>memory := m, console := console s @ [w]\<rparr>
           in if unprocessedMemoryMessages s1 = [] then s1 else launch_memory s1))"

text \<open>engine.ts 266-352.\<close>

definition launch_cognition :: "engine \<Rightarrow> engine" where
  "launch_cognition s =
     s\<lparr>unprocessedCognitionMessages := [],
       lastCognitionProcessTime := now s,
       asyncEventQueue := asyncEventQueue s @
         [\<lparr>ev_type = metacognition_event, operation = analysis_start, eventId = nextId s,
           ev_data = CognitionStartData (requestCount s),
           timestamp = now s\<rparr>],
       cognition := (cognition s)\<lparr>processing := True, lastProcessingStartTime := Some (now s)\<rparr>,
       pendingAsyncOps := pendingAsyncOps s @
         [\<lparr>op_kind = Cognition, op_eventId = nextId s, processingStart = now s\<rparr>],
       outstandingCalls := outstandingCalls s @
         [\<lparr>op_kind = Cognition, op_eventId = nextId s, processingStart = now s\<rparr>],
       nextId := Suc (nextId s)\<rparr>"

definition processMetaCognition :: "engine \<Rightarrow> engine" where
  "processMetaCognition s =
     (case trigger_stuck_check Cognition (now s) (cognition s) of
        StillProcessing \<Rightarrow> s
      | NotProcessing \<Rightarrow>
          if unprocessedCognitionMessages s = [] then s else launch_cognition s
      | ForcedReset c w \<Rightarrow>
          (let s1 = s\<lparr>cognition := c, console := console s @ [w]\<rparr>
           in if unprocessedCognitionMessages s1 = [] then s1 else launch_cognition s1))"

subsection \<open>Settlement of a background operation\<close>

text \<open>
  What the analysis resolves with matters through the spread \<^verbatim>\<open>...result\<close> in the
  payload of the completion event: a property of the result replaces the property of
  the same name written before the spread. \<open>None\<close> is a result without that property
  (\<^verbatim>\<open>undefined\<close> in particular).
\<close>

record analysis_result =
  res_messageCount :: "nat option"
  res_requestCount :: "nat option"
  res_processingTime :: "int option"

text \<open>
  What a promise can reject with, as far as \<^verbatim>\<open>error.message?.includes('timeout')\<close>
  looks at it: \<^verbatim>\<open>undefined\<close> or \<^verbatim>\<open>null\<close>; any other value, with its property
  \<^verbatim>\<open>message\<close>, which is nullish, a string, a value without a callable \<^verbatim>\<open>includes\<close>,
  or a value whose own \<^verbatim>\<open>includes\<close> answers; and the \<^verbatim>\<open>TypeError\<close> that the
  handler itself throws.
\<close>

datatype js_message = NoMessage | StringMessage string | Uncallable | Callable bool

datatype thrown = Nullish | Thrown js_message | TypeError

text \<open>\<^verbatim>\<open>String.prototype.includes\<close>\<close>

fun String_includes :: "string \<Rightarrow> string \<Rightarrow> bool" where
  "String_includes [] t = (t = [])"
| "String_includes (c # s) t = (take (length t) (c # s) = t \<or> String_includes s t)"

text \<open>
  How the race between the analysis and its timeout ends: the analysis resolved, it
  rejected, the 3-minute timeout rejected, or the abort signal rejected.
\<close>

datatype outcome = Succeeded analysis_result | Failed thrown | TimedOut | Aborted

datatype 'a settled = Fulfilled 'a | Rejected thrown

definition MEMORY_TIMEOUT :: int where
  "MEMORY_TIMEOUT = 3 * 60 * 1000"

definition COGNITION_TIMEOUT :: int where
  "COGNITION_TIMEOUT = 3 * 60 * 1000"

definition timeout_error :: "kind \<Rightarrow> thrown" where
  "timeout_error k = Thrown (StringMessage (case k of
       Memory \<Rightarrow> ''Metamemory processing timeout after 3 minutes''
     | Cognition \<Rightarrow> ''Meta-cognition processing timeout after 3 minutes''))"

definition abort_error :: "kind \<Rightarrow> thrown" where
  "abort_error k = Thrown (StringMessage (case k of
       Memory \<Rightarrow> ''Metamemory processing aborted''
     | Cognition \<Rightarrow> ''Meta-cognition processing aborted''))"

text \<open>A promise chain is a settlement together with the state its handlers have left.\<close>

type_synonym 'a chain = "'a settled \<times> engine"

definition race :: "kind \<Rightarrow> outcome \<Rightarrow> engine \<Rightarrow> analysis_result chain" where
  "race k out s = (case out of
       Succeeded r \<Rightarrow> (Fulfilled r, s)
     | Failed e \<Rightarrow> (Rejected e, s)
     | TimedOut \<Rightarrow> (Rejected (timeout_error k), s)
     | Aborted \<Rightarrow> (Rejected (abort_error k), s))"

definition promise_then :: "('a \<Rightarrow> engine \<Rightarrow> engine) \<Rightarrow> 'a chain \<Rightarrow> unit chain" where
  "promise_then h c = (case c of
       (Fulfilled r, s) \<Rightarrow> (Fulfilled (), h r s)
     | (Rejected e, s) \<Rightarrow> (Rejected e, s))"

text \<open>A handler that throws rejects the promise that \<^verbatim>\<open>catch\<close> returns.\<close>

definition promise_catch :: "(thrown \<Rightarrow> engine \<Rightarrow> thrown + engine) \<Rightarrow> unit chain \<Rightarrow> unit chain" where
  "promise_catch h c = (case c of
       (Fulfilled u, s) \<Rightarrow> (Fulfilled u, s)
     | (Rejected e, s) \<Rightarrow> (case h e s of Inl e' \<Rightarrow> (Rejected e', s) | Inr s' \<Rightarrow> (Fulfilled (), s')))"

definition promise_finally :: "(engine \<Rightarrow> engine) \<Rightarrow> unit chain \<Rightarrow> unit chain" where
  "promise_finally h c = (case c of (st, s) \<Rightarrow> (st, h s))"

text \<open>\<^verbatim>\<open>Math.round((Date.now() - processingStart) / 1000) * 1000\<close>\<close>

definition reported_processingTime :: "engine \<Rightarrow> pending_op \<Rightarrow> int" where
  "reported_processingTime s p = Math_round_seconds (now s - processingStart p) * 1000"

text \<open>engine.ts 182-217; \<^verbatim>\<open>metamemory.getState\<close> and \<^verbatim>\<open>metamemory.checkCompact\<close> are
  taken to return at once. The spread comes last in the payload.\<close>

definition memory_on_success :: "pending_op \<Rightarrow> analysis_result \<Rightarrow> engine \<Rightarrow> engine" where
  "memory_on_success p r s =
     s\<lparr>asyncEventQueue := asyncEventQueue s @
         [\<lparr>ev_type = metamemory_event, operation = tagging_complete, eventId = op_eventId p,
           ev_data = MemoryCompleteData
             (or_else (res_messageCount r) (length (messages s)))
             (or_else (res_processingTime r) (reported_processingTime s p)),
           timestamp = now s\<rparr>]\<rparr>"

text \<open>engine.ts 315-339; \<^verbatim>\<open>taskLocalState?.requestCount || 0\<close> is the count itself.\<close>

definition cognition_on_success :: "pending_op \<Rightarrow> analysis_result \<Rightarrow> engine \<Rightarrow> engine" where
  "cognition_on_success p r s =
     s\<lparr>asyncEventQueue := asyncEventQueue s @
         [\<lparr>ev_type = metacognition_event, operation = analysis_complete, eventId = op_eventId p,
           ev_data = CognitionCompleteData
             (or_else (res_requestCount r) (requestCount s))
             (or_else (res_processingTime r) (reported_processingTime s p)),
           timestamp = now s\<rparr>]\<rparr>"

text \<open>\<^verbatim>\<open>const isTimeout = error.message?.includes('timeout')\<close> (engine.ts 219 and 341):
  reading \<^verbatim>\<open>message\<close> of \<^verbatim>\<open>undefined\<close> or \<^verbatim>\<open>null\<close> throws, and so does calling an
  \<^verbatim>\<open>includes\<close> that is not a function; a nullish message gives \<^verbatim>\<open>undefined\<close>.\<close>

definition isTimeout :: "thrown \<Rightarrow> thrown + bool" where
  "isTimeout e = (case e of
       Nullish \<Rightarrow> Inl TypeError
     | TypeError \<Rightarrow> Inr False
     | Thrown NoMessage \<Rightarrow> Inr False
     | Thrown (StringMessage m) \<Rightarrow> Inr (String_includes m ''timeout'')
     | Thrown Uncallable \<Rightarrow> Inl TypeError
     | Thrown (Callable b) \<Rightarrow> Inr b)"

definition on_error :: "kind \<Rightarrow> thrown \<Rightarrow> engine \<Rightarrow> thrown + engine" where
  "on_error k e s = (case isTimeout e of
       Inl e' \<Rightarrow> Inl e'
     | Inr b \<Rightarrow> Inr (s\<lparr>console := console s @ [ProcessingFailure k b]\<rparr>))"

definition remove_op :: "pending_op \<Rightarrow> pending_op list \<Rightarrow> pending_op list" where
  "remove_op p ops = filter (\<lambda>q. op_eventId q \<noteq> op_eventId p) ops"

definition memory_finally :: "pending_op \<Rightarrow> engine \<Rightarrow> engine" where
  "memory_finally p s =
     s\<lparr>memory := (memory s)\<lparr>processing := False, lastProcessingStartTime := None\<rparr>,
       pendingAsyncOps := remove_op p (pendingAsyncOps s)\<rparr>"

definition cognition_finally :: "pending_op \<Rightarrow> engine \<Rightarrow> engine" where
  "cognition_finally p s =
     s\<lparr>cognition := (cognition s)\<lparr>processing := False, lastProcessingStartTime := None\<rparr>,
       pendingAsyncOps := remove_op p (pendingAsyncOps s)\<rparr>"

text \<open>\<^verbatim>\<open>Promise.race([...]).then(...).catch(...).finally(...)\<close>: the settlement of the
  tracked promise and the state the handlers leave.\<close>

definition memoryOp :: "pending_op \<Rightarrow> outcome \<Rightarrow> engine \<Rightarrow> unit chain" where
  "memoryOp p out s =
     promise_finally (memory_finally p)
       (promise_catch (on_error Memory)
         (promise_then (memory_on_success p) (race Memory out s)))"

definition cognitionOp :: "pending_op \<Rightarrow> outcome \<Rightarrow> engine \<Rightarrow> unit chain" where
  "cognitionOp p out s =
     promise_finally (cognition_finally p)
       (promise_catch (on_error Cognition)
         (promise_then (cognition_on_success p) (race Cognition out s)))"

section \<open>Trigger scheduler\<close>

text \<open>engine.ts 632-655. Clearing the old handle and setting a new timeout replaces the
  deadline; at 10 unprocessed messages the timer is cleared, the variable set to
  \<^verbatim>\<open>null\<close>, and \<^verbatim>\<open>processMetaMemory\<close> is called at once.\<close>

definition bumpMetaMemoryTimer :: "engine \<Rightarrow> engine" where
  "bumpMetaMemoryTimer s =
     (let s1 = s\<lparr>memoryDebounceTimer := Armed (now s + 1000)\<rparr>
      in if length (unprocessedMemoryMessages s1) \<ge> 10
         then processMetaMemory (s1\<lparr>memoryDebounceTimer := NoTimer\<rparr>)
         else s1)"

text \<open>\<^verbatim>\<open>taskLocalState?.cognition?.frequency || 10\<close>\<close>

definition effective_frequency :: "int \<Rightarrow> int" where
  "effective_frequency f = (if f = 0 then 10 else f)"

text \<open>engine.ts 657-685.\<close>

definition bumpMetaCognitionTimer :: "engine \<Rightarrow> engine" where
  "bumpMetaCognitionTimer s =
     (if \<not> enabled (cognition s) then s
      else
        (let s1 = s\<lparr>messagesSinceLastCognition := messagesSinceLastCognition s + 1\<rparr>
         in if int (messagesSinceLastCognition s1) \<ge> effective_frequency (frequency (cognition s1))
            then s1\<lparr>messagesSinceLastCognition := 0,
                    cognitionDebounceTimer := Armed (now s1 + 1000)\<rparr>
            else s1))"

text \<open>engine.ts 783-803: a \<^verbatim>\<open>response_output\<close> event that carries a message. The
  message gets a uuid when it has no id and is appended to the history and to both
  unprocessed queues; then the timers are bumped.\<close>

definition push_message :: "message \<Rightarrow> engine \<Rightarrow> engine" where
  "push_message m s =
     (let s0 = (case msg_id m of None \<Rightarrow> s\<lparr>nextId := Suc (nextId s)\<rparr> | Some _ \<Rightarrow> s);
          m' = (case msg_id m of None \<Rightarrow> m\<lparr>msg_id := Some (nextId s)\<rparr> | Some _ \<Rightarrow> m)
      in s0\<lparr>messages := messages s0 @ [m'],
             unprocessedMemoryMessages := unprocessedMemoryMessages s0 @ [m'],
             unprocessedCognitionMessages := unprocessedCognitionMessages s0 @ [m']\<rparr>)"

definition onResponseOutput :: "message \<Rightarrow> engine \<Rightarrow> engine" where
  "onResponseOutput m s =
     (let s1 = push_message m s;
          s2 = (if has_metamemory s1 \<and> enabled (memory s1) then bumpMetaMemoryTimer s1 else s1)
      in if enabled (cognition s2) then bumpMetaCognitionTimer s2 else s2)"

text \<open>The callbacks of the two debounce timers and of the 3-minute interval
  (engine.ts 639-643, 679-683, 689-693). A callback runs only when its timer is armed
  and due.\<close>

definition memoryDebounceFire :: "engine \<Rightarrow> engine" where
  "memoryDebounceFire s =
     (case memoryDebounceTimer s of
        Armed d \<Rightarrow> if d \<le> now s then processMetaMemory (s\<lparr>memoryDebounceTimer := Spent\<rparr>) else s
      | _ \<Rightarrow> s)"

definition cognitionDebounceFire :: "engine \<Rightarrow> engine" where
  "cognitionDebounceFire s =
     (case cognitionDebounceTimer s of
        Armed d \<Rightarrow> if d \<le> now s then processMetaCognition (s\<lparr>cognitionDebounceTimer := Spent\<rparr>) else s
      | _ \<Rightarrow> s)"

definition cognitionPeriodicFire :: "engine \<Rightarrow> engine" where
  "cognitionPeriodicFire s =
     (case cognitionTimer s of
        Armed d \<Rightarrow>
          if d \<le> now s then
            (let s1 = s\<lparr>cognitionTimer := Armed (d + 180000)\<rparr>
             in if messages s1 \<noteq> [] \<and> enabled (cognition s1) then processMetaCognition s1 else s1)
          else s
      | _ \<Rightarrow> s)"

section \<open>Event merge queue\<close>

text \<open>\<^verbatim>\<open>while (asyncEventQueue.length > 0) yield asyncEventQueue.shift()\<close>: the first
  argument is the queue, the second what the consumer has received so far.\<close>

fun drainAll :: "meta_event list \<Rightarrow> meta_event list \<Rightarrow> meta_event list \<times> meta_event list" where
  "drainAll [] out = ([], out)"
| "drainAll (e # q) out = drainAll q (out @ [e])"

definition drain :: "engine \<Rightarrow> engine" where
  "drain s = (case drainAll (asyncEventQueue s) (delivered s) of
                (q, out) \<Rightarrow> s\<lparr>asyncEventQueue := q, delivered := out\<rparr>)"

section \<open>The engine as a transition system\<close>

text \<open>
  One action is one turn of the event loop: the clock advancing, a message arriving, a
  timer callback, the settlement of a tracked background operation, an analysis call
  returning after its race is over, or the run loop draining the queue. A timeout can
  settle an operation only once its 3 minutes are over.
\<close>

datatype action =
    Tick nat
  | ResponseOutput message
  | MemoryDebounceFire
  | CognitionDebounceFire
  | CognitionPeriodicFire
  | Settle nat outcome
  | CallReturns nat
  | Drain

text \<open>The handlers of the tracked promise \<open>p\<close> run. The analysis call has returned when
  it won the race; it is still running when the timeout or the abort signal won.\<close>

definition settle_op :: "pending_op \<Rightarrow> outcome \<Rightarrow> engine \<Rightarrow> engine" where
  "settle_op p out s =
     (let s' = (case op_kind p of
                  Memory \<Rightarrow> snd (memoryOp p out s)
                | Cognition \<Rightarrow> snd (cognitionOp p out s))
      in case out of
           TimedOut \<Rightarrow> s'
         | Aborted \<Rightarrow> s'
         | _ \<Rightarrow> s'\<lparr>outstandingCalls := remove_op p (outstandingCalls s')\<rparr>)"

definition settle :: "nat \<Rightarrow> outcome \<Rightarrow> engine \<Rightarrow> engine" where
  "settle i out s =
     (case find (\<lambda>q. op_eventId q = i) (pendingAsyncOps s) of
        None \<Rightarrow> s
      | Some p \<Rightarrow>
          if out = TimedOut \<and>
             now s < processingStart p +
               (case op_kind p of Memory \<Rightarrow> MEMORY_TIMEOUT | Cognition \<Rightarrow> COGNITION_TIMEOUT)
          then s
          else settle_op p out s)"

text \<open>A call whose race is already settled returns or throws: no handler is left to
  run, the engine does not change.\<close>

definition call_returns :: "nat \<Rightarrow> engine \<Rightarrow> engine" where
  "call_returns i s =
     (case find (\<lambda>q. op_eventId q = i) (pendingAsyncOps s) of
        None \<Rightarrow> s\<lparr>outstandingCalls := filter (\<lambda>q. op_eventId q \<noteq> i) (outstandingCalls s)\<rparr>
      | Some p \<Rightarrow> s)"

fun step :: "action \<Rightarrow> engine \<Rightarrow> engine" where
  "step (Tick n) s = s\<lparr>now := now s + int n\<rparr>"
| "step (ResponseOutput m) s = onResponseOutput m s"
| "step MemoryDebounceFire s = memoryDebounceFire s"
| "step CognitionDebounceFire s = cognitionDebounceFire s"
| "step CognitionPeriodicFire s = cognitionPeriodicFire s"
| "step (Settle i out) s = settle i out s"
| "step (CallReturns i) s = call_returns i s"
| "step Drain s = drain s"

fun run :: "action list \<Rightarrow> engine \<Rightarrow> engine" where
  "run [] s = s"
| "run (a # as) s = run as (step a s)"

text \<open>Everything the supervisor has emitted so far, in the order of emission.\<close>

definition emitted :: "engine \<Rightarrow> meta_event list" where
  "emitted s = delivered s @ asyncEventQueue s"

text \<open>The analysis calls of a kind that are running, and the promises of a kind that
  are tracked.\<close>

definition in_flight :: "kind \<Rightarrow> engine \<Rightarrow> pending_op list" where
  "in_flight k s = filter (\<lambda>p. op_kind p = k) (outstandingCalls s)"

definition tracked :: "kind \<Rightarrow> engine \<Rightarrow> pending_op list" where
  "tracked k s = filter (\<lambda>p. op_kind p = k) (pendingAsyncOps s)"

section \<open>Starting and resuming a task\<close>

subsection \<open>The conversation history (engine.ts 379-403 and 447-463)\<close>




definition user_message :: "nat \<Rightarrow> js_string \<Rightarrow> message" where
  "user_message i c = \<lparr>msg_id = Some i, role = ''user'', content = c\<rparr>"



subsection \<open>Reconstruction of the task state (engine.ts 520-587)\<close>

text \<open>
  A keyed collection of a snapshot is a plain object (after serialization) or a native
  \<^verbatim>\<open>Map\<close>. Both are association lists with each key once: a \<^verbatim>\<open>Map\<close> in insertion
  order, a plain object in the order in which its properties were created.
  \<^verbatim>\<open>new Map(entries)\<close> inserts the entries one by one, a later entry for a key
  replacing the earlier one in place.
\<close>

type_synonym 'v entries = "(string \<times> 'v) list"

datatype 'v keyed = PlainObject "'v entries" | NativeMap "'v entries"

fun Map_set :: "'v entries \<Rightarrow> string \<Rightarrow> 'v \<Rightarrow> 'v entries" where
  "Map_set [] k v = [(k, v)]"
| "Map_set ((k', v') # m) k v = (if k' = k then (k, v) # m else (k', v') # Map_set m k v)"

definition new_Map :: "'v entries \<Rightarrow> 'v entries" where
  "new_Map es = fold (\<lambda>(k, v) m. Map_set m k v) es []"

text \<open>
  A property key is an array index when it is the canonical decimal numeral of an
  integer below \<open>2\<^sup>3\<^sup>2 - 1\<close>. The own properties of an object are enumerated with
  the array indices first, in ascending numeric order, and the other string keys after
  them in the order of their creation.
\<close>

definition decimal_digit :: "char \<Rightarrow> bool" where
  "decimal_digit c = (48 \<le> (of_char c :: nat) \<and> (of_char c :: nat) \<le> 57)"

definition decimal_value :: "string \<Rightarrow> nat" where
  "decimal_value k = fold (\<lambda>c n. 10 * n + ((of_char c :: nat) - 48)) k 0"

definition array_index :: "string \<Rightarrow> nat option" where
  "array_index k =
     (if k \<noteq> [] \<and> list_all decimal_digit k \<and> (k = ''0'' \<or> hd k \<noteq> CHR ''0'')
         \<and> decimal_value k < 2 ^ 32 - 1
      then Some (decimal_value k) else None)"

definition own_property_order :: "'v entries \<Rightarrow> 'v entries" where
  "own_property_order obj =
     sort_key (\<lambda>(k, v). or_else (array_index k) 0) (filter (\<lambda>(k, v). array_index k \<noteq> None) obj)
     @ filter (\<lambda>(k, v). array_index k = None) obj"

definition Object_entries :: "'v entries \<Rightarrow> 'v entries" where
  "Object_entries obj = own_property_order obj"

text \<open>\<^verbatim>\<open>x instanceof Map ? x : new Map(Object.entries(x))\<close>; the result is the
  content of a native \<^verbatim>\<open>Map\<close>.\<close>

definition reconstruct_Map :: "'v keyed \<Rightarrow> 'v entries" where
  "reconstruct_Map x = (case x of NativeMap m \<Rightarrow> m | PlainObject obj \<Rightarrow> new_Map (Object_entries obj))"


datatype models = ModelArray "string list" | ModelSet "string set"

text \<open>\<^verbatim>\<open>new Set(x)\<close> for an array or a set.\<close>

definition new_Set :: "models \<Rightarrow> string set" where
  "new_Set x = (case x of ModelArray xs \<Rightarrow> set xs | ModelSet S \<Rightarrow> S)"

record abort_controller =
  controller_id :: nat
  aborted :: bool

definition new_AbortController :: "nat \<Rightarrow> abort_controller" where
  "new_AbortController i = \<lparr>controller_id = i, aborted = False\<rparr>"

text \<open>The state handed to \<^verbatim>\<open>runTask\<close>; \<open>None\<close> is an absent field.
  \<^verbatim>\<open>thoughtDelay\<close> and \<^verbatim>\<open>modelScores\<close> are left out.\<close>

record memory_state_in =
  in_topicTags :: "string keyed option"
  in_taggedMessages :: "string keyed option"
  in_topicCompaction :: "string keyed option"
  in_lastProcessedIndex :: "nat option"

record cognition_in =
  in_c_enabled :: "bool option"
  in_c_frequency :: "int option"
  in_c_processing :: "bool option"
  in_c_lastProcessingStartTime :: "time option"
  in_disabledModels :: "models option"

record memory_in =
  in_m_enabled :: "bool option"
  in_m_processing :: "bool option"
  in_m_lastProcessingStartTime :: "time option"
  in_m_state :: "memory_state_in option"

record TaskLocalState =
  in_messages :: "message list option"
  in_requestCount :: "nat option"
  in_runIndefinitely :: "bool option"
  in_delayAbortController :: "abort_controller option"
  in_cognition :: "cognition_in option"
  in_memory :: "memory_in option"

record memory_state =
  topicTags :: "string entries"
  taggedMessages :: "string entries"
  lastProcessedIndex :: nat
  topicCompaction :: "string entries option"

record task_state =
  ts_requestCount :: nat
  delayAbortController :: abort_controller
  ts_cognition :: cognition_state
  disabledModels :: "string set"
  ts_memory :: proc_state
  ts_memory_state :: memory_state
  ts_console :: "log_entry list"

definition init_cognition :: "cognition_in option \<Rightarrow> cognition_state" where
  "init_cognition c =
     (let c' = or_else c \<lparr>in_c_enabled = None, in_c_frequency = None, in_c_processing = None,
                          in_c_lastProcessingStartTime = None, in_disabledModels = None\<rparr>
      in \<lparr>enabled = or_else (in_c_enabled c') True,
          processing = or_else (in_c_processing c') False,
          lastProcessingStartTime = in_c_lastProcessingStartTime c',
          frequency = effective_frequency (or_else (in_c_frequency c') 0)\<rparr>)"

definition init_disabledModels :: "cognition_in option \<Rightarrow> string set" where
  "init_disabledModels c =
     (case c of None \<Rightarrow> {}
      | Some c' \<Rightarrow> (case in_disabledModels c' of None \<Rightarrow> {} | Some x \<Rightarrow> new_Set x))"

definition init_memory :: "memory_in option \<Rightarrow> proc_state" where
  "init_memory m =
     (let m' = or_else m \<lparr>in_m_enabled = None, in_m_processing = None,
                          in_m_lastProcessingStartTime = None, in_m_state = None\<rparr>
      in \<lparr>enabled = or_else (in_m_enabled m') True,
          processing = or_else (in_m_processing m') False,
          lastProcessingStartTime = in_m_lastProcessingStartTime m'\<rparr>)"

definition init_memory_state :: "memory_in option \<Rightarrow> memory_state" where
  "init_memory_state m =
     (case (case m of None \<Rightarrow> None | Some m' \<Rightarrow> in_m_state m') of
        Some st \<Rightarrow>
          \<lparr>topicTags = reconstruct_Map (or_else (in_topicTags st) (PlainObject [])),
           taggedMessages = reconstruct_Map (or_else (in_taggedMessages st) (PlainObject [])),
           lastProcessedIndex = or_else (in_lastProcessedIndex st) 0,
           topicCompaction = map_option reconstruct_Map (in_topicCompaction st)\<rparr>
      | None \<Rightarrow>
          \<lparr>topicTags = [], taggedMessages = [], lastProcessedIndex = 0, topicCompaction = None\<rparr>)"

definition apply_recovery :: "'p \<Rightarrow> 'p recovery \<Rightarrow> 'p \<times> log_entry list" where
  "apply_recovery p r = (case r of ForcedReset p' w \<Rightarrow> (p', [w]) | _ \<Rightarrow> (p, []))"

text \<open>The head of \<^verbatim>\<open>taskGenerator\<close>: the first argument is \<^verbatim>\<open>Date.now()\<close>, the
  second the identity of the abort controller that \<^verbatim>\<open>new AbortController()\<close>
  creates.\<close>

definition taskGenerator_init :: "time \<Rightarrow> nat \<Rightarrow> TaskLocalState option \<Rightarrow> task_state" where
  "taskGenerator_init t fresh given =
     (let g = or_else given \<lparr>in_messages = None, in_requestCount = None, in_runIndefinitely = None,
                              in_delayAbortController = None, in_cognition = None, in_memory = None\<rparr>;
          (c, wc) = apply_recovery (init_cognition (in_cognition g))
                      (resume_stuck_check Cognition t (init_cognition (in_cognition g)));
          (m, wm) = apply_recovery (init_memory (in_memory g))
                      (resume_stuck_check Memory t (init_memory (in_memory g)))
      in \<lparr>ts_requestCount = or_else (in_requestCount g) 0,
          delayAbortController = new_AbortController fresh,
          ts_cognition = c,
          disabledModels = init_disabledModels (in_cognition g),
          ts_memory = m,
          ts_memory_state = init_memory_state (in_memory g),
          ts_console = wc @ wm\<rparr>)"

text \<open>The engine as the generator sets it up before its first request
  (engine.ts 589-693).\<close>

definition initial_engine :: "time \<Rightarrow> nat \<Rightarrow> message list \<Rightarrow> task_state \<Rightarrow> engine" where
  "initial_engine t i ms ts =
     \<lparr>now = t, nextId = i, has_metamemory = enabled (ts_memory ts),
      memory = ts_memory ts, cognition = ts_cognition ts,
      requestCount = ts_requestCount ts, messages = ms,
      unprocessedMemoryMessages = [], unprocessedCognitionMessages = [],
      lastMemoryProcessTime = t, lastCognitionProcessTime = t,
      messagesSinceLastCognition = 0,
      memoryDebounceTimer = NoTimer, cognitionDebounceTimer = NoTimer,
      cognitionTimer = Armed (t + 180000),
      asyncEventQueue = [], pendingAsyncOps = [], outstandingCalls = [],
      console = ts_console ts, delivered = []\<rparr>"

section \<open>The task generator's control flow (engine.ts 695-893)\<close>

text \<open>
  What the provider stream of one request does while the loop awaits it: it delivers an
  event, a background operation pushes a meta event into the queue in the meantime, or
  an error is thrown inside the \<^verbatim>\<open>try\<close> block. The bookkeeping of messages and
  timers on \<^verbatim>\<open>response_output\<close> is the transition system above and is not repeated
  here.
\<close>

datatype provider_event = tool_done string string | response_output | other_event

datatype task_event =
    task_start
  | task_complete string
  | task_fatal_error string
  | provider provider_event
  | meta meta_event
  | error_event string

datatype stream_item = Event provider_event | Push meta_event | Throw string

record gen_state =
  taskStartEmitted :: bool
  taskCompleted :: bool
  isComplete :: bool
  queue :: "meta_event list"

text \<open>A yield suspends the generator; each yielded event is paired with the state in
  which the generator is suspended, which is the state the \<^verbatim>\<open>finally\<close> block sees
  when the consumer calls \<^verbatim>\<open>return()\<close> there.\<close>

type_synonym suspension = "task_event \<times> gen_state"

fun drain_queue :: "meta_event list \<Rightarrow> gen_state \<Rightarrow> suspension list" where
  "drain_queue [] g = []"
| "drain_queue (e # q) g = (meta e, g\<lparr>queue := q\<rparr>) # drain_queue q g"

definition completion_event :: "string \<Rightarrow> string \<Rightarrow> task_event" where
  "completion_event name out =
     (if name = ''task_complete'' then task_complete out else task_fatal_error out)"

text \<open>The terminal event that a provider event calls for (engine.ts 764-779): a
  \<^verbatim>\<open>tool_done\<close> of one of the two completion tools, unless the task runs
  indefinitely.\<close>

definition completeEvent :: "bool \<Rightarrow> provider_event \<Rightarrow> task_event option" where
  "completeEvent ri ev =
     (case ev of
        tool_done name out \<Rightarrow>
          if \<not> ri \<and> (name = ''task_complete'' \<or> name = ''task_fatal_error'')
          then Some (completion_event name out) else None
      | _ \<Rightarrow> None)"

text \<open>The body of the \<^verbatim>\<open>for await\<close> loop for one provider event (engine.ts
  754-782): the queue is drained, the event is yielded, and for a completion tool both
  completion flags are set and the terminal event is yielded. The result is the
  suspensions and the state afterwards.\<close>

definition on_provider_event ::
  "bool \<Rightarrow> provider_event \<Rightarrow> gen_state \<Rightarrow> suspension list \<times> gen_state" where
  "on_provider_event ri ev g =
     (let g1 = g\<lparr>queue := []\<rparr>;
          yielded = drain_queue (queue g) g @ [(provider ev, g1)]
      in case completeEvent ri ev of
           Some ce \<Rightarrow>
             (let g2 = g1\<lparr>isComplete := True, taskCompleted := True\<rparr>
              in (yielded @ [(ce, g2)], g2))
         | None \<Rightarrow> (yielded, g1))"

text \<open>The \<^verbatim>\<open>for await\<close> loop over one request (engine.ts 753-804). The result is the
  suspensions, the error if one was thrown, and the state at the end.\<close>

fun run_request ::
  "bool \<Rightarrow> stream_item list \<Rightarrow> gen_state \<Rightarrow> suspension list \<times> string option \<times> gen_state" where
  "run_request ri [] g = ([], None, g)"
| "run_request ri (Push e # items) g = run_request ri items (g\<lparr>queue := queue g @ [e]\<rparr>)"
| "run_request ri (Throw m # items) g = ([], Some m, g)"
| "run_request ri (Event ev # items) g =
     (case on_provider_event ri ev g of
        (here, g2) \<Rightarrow>
          (case run_request ri items g2 of (ys, err, g') \<Rightarrow> (here @ ys, err, g')))"

text \<open>How the \<^verbatim>\<open>try\<close> block ends: the loop finished, an error was thrown, or the
  provider delivers nothing further and the generator stays suspended in an await.\<close>

datatype body_exit = Finished gen_state | Threw string gen_state | Awaiting

text \<open>The \<^verbatim>\<open>while (!isComplete)\<close> loop (engine.ts 711-811) over the requests. The
  wait for pending operations after the loop (engine.ts 813-834) ends with one more
  drain of the queue, which the \<^verbatim>\<open>finally\<close> block does in any case; it is left
  out.\<close>

fun run_loop ::
  "bool \<Rightarrow> stream_item list list \<Rightarrow> gen_state \<Rightarrow> suspension list \<times> body_exit" where
  "run_loop ri [] g = ([], Awaiting)"
| "run_loop ri (req # reqs) g =
     (let before = drain_queue (queue g) g;
          g1 = g\<lparr>queue := []\<rparr>
      in case run_request ri req g1 of
           (ys, Some m, g2) \<Rightarrow> (before @ ys, Threw m g2)
         | (ys, None, g2) \<Rightarrow>
             (let after = drain_queue (queue g2) g2;
                  g3 = g2\<lparr>queue := []\<rparr>
              in if isComplete g3 then (before @ ys @ after, Finished g3)
                 else (case run_loop ri reqs g3 of
                         (zs, ex) \<Rightarrow> (before @ ys @ after @ zs, ex))))"

text \<open>The \<^verbatim>\<open>try\<close> block: the start event, whose flag is set only once the
  generator is resumed after the yield, then the loop.\<close>

definition try_block :: "bool \<Rightarrow> stream_item list list \<Rightarrow> suspension list \<times> body_exit" where
  "try_block ri reqs =
     (let g0 = \<lparr>taskStartEmitted = False, taskCompleted = False, isComplete = False, queue = []\<rparr>
      in if ri then run_loop ri reqs g0
         else (case run_loop ri reqs (g0\<lparr>taskStartEmitted := True\<rparr>) of
                 (ys, ex) \<Rightarrow> ((task_start, g0) # ys, ex)))"

text \<open>engine.ts 836-859: the suspensions of the \<^verbatim>\<open>catch\<close> block and the state at its
  end; \<^verbatim>\<open>taskCompleted\<close> is set once the generator is resumed after the yield of the
  terminal event.\<close>

definition catch_block :: "bool \<Rightarrow> string \<Rightarrow> gen_state \<Rightarrow> suspension list \<times> gen_state" where
  "catch_block ri m g =
     (if taskStartEmitted g \<and> \<not> taskCompleted g \<and> \<not> ri
      then ([(task_fatal_error (''Task failed with error: '' @ m), g),
             (error_event (''Agent execution failed: '' @ m), g\<lparr>taskCompleted := True\<rparr>)],
            g\<lparr>taskCompleted := True\<rparr>)
      else ([(error_event (''Agent execution failed: '' @ m), g)], g))"

text \<open>engine.ts 860-893: the events that the \<^verbatim>\<open>finally\<close> block yields when every
  yield is resumed: the queue is drained, then the terminal event is synthesized.\<close>

definition synthesized :: task_event where
  "synthesized = task_fatal_error ''Task ended without explicit completion''"

definition finally_block :: "bool \<Rightarrow> gen_state \<Rightarrow> task_event list" where
  "finally_block ri g =
     map meta (queue g) @
     (if taskStartEmitted g \<and> \<not> taskCompleted g \<and> \<not> ri then [synthesized] else [])"

text \<open>The suspensions of the \<^verbatim>\<open>try\<close> and \<^verbatim>\<open>catch\<close> blocks, and the state in which
  the \<^verbatim>\<open>finally\<close> block is entered when the generator is never told to return
  (\<open>None\<close> when it stays suspended in an await).\<close>

definition protected_blocks ::
  "bool \<Rightarrow> stream_item list list \<Rightarrow> suspension list \<times> gen_state option" where
  "protected_blocks ri reqs =
     (case try_block ri reqs of
        (ys, ex) \<Rightarrow>
          (case ex of
             Finished g \<Rightarrow> (ys, Some g)
           | Threw m g \<Rightarrow> (case catch_block ri m g of (cs, g') \<Rightarrow> (ys @ cs, Some g'))
           | Awaiting \<Rightarrow> (ys, None)))"

text \<open>The events of \<^verbatim>\<open>taskGenerator\<close> when each of its yields is resumed by
  \<^verbatim>\<open>next()\<close>.\<close>

definition taskGenerator :: "bool \<Rightarrow> stream_item list list \<Rightarrow> task_event list" where
  "taskGenerator ri reqs =
     (case protected_blocks ri reqs of
        (ys, fin) \<Rightarrow>
          map fst ys @ (case fin of Some g \<Rightarrow> finally_block ri g | None \<Rightarrow> []))"

text \<open>
  \<^verbatim>\<open>generator.return()\<close> called once, when \<open>k\<close> events have been taken: the generator
  suspended in the \<^verbatim>\<open>try\<close> or \<^verbatim>\<open>catch\<close> block enters the \<^verbatim>\<open>finally\<close> block and
  runs to the first yield there, whose event is the result of the call; the generator
  stays suspended at that yield. A generator suspended in the \<^verbatim>\<open>finally\<close> block, or
  finished, yields nothing.
\<close>

definition generator_return :: "bool \<Rightarrow> stream_item list list \<Rightarrow> nat \<Rightarrow> task_event list" where
  "generator_return ri reqs k =
     (case protected_blocks ri reqs of
        (ys, fin) \<Rightarrow>
          if 0 < k \<and> k \<le> length ys then take 1 (finally_block ri (snd (ys ! (k - 1)))) else [])"

text \<open>
  \<^verbatim>\<open>runTask\<close> returns the wrapper (engine.ts 910-918), which passes on each event of
  the generator. The consumer takes every event (\<open>None\<close>) or leaves its
  \<^verbatim>\<open>for await\<close> loop when it has received its \<open>k\<close>-th event (\<open>Some k\<close>): the wrapper's
  own loop then calls \<^verbatim>\<open>generator.return()\<close> once and drops its result. The first
  component is what the caller of \<^verbatim>\<open>runTask\<close> receives, the second what is dropped.
\<close>

definition wrappedGenerator ::
  "bool \<Rightarrow> stream_item list list \<Rightarrow> nat option \<Rightarrow> task_event list \<times> task_event list" where
  "wrappedGenerator ri reqs consumer =
     (case consumer of
        None \<Rightarrow> (taskGenerator ri reqs, [])
      | Some k \<Rightarrow> (take k (taskGenerator ri reqs), generator_return ri reqs k))"

definition is_terminal :: "task_event \<Rightarrow> bool" where
  "is_terminal e = (case e of task_complete _ \<Rightarrow> True | task_fatal_error _ \<Rightarrow> True | _ \<Rightarrow> False)"

section \<open>Example inputs\<close>

text \<open>A snapshot of a task that was persisted while both analyses were running, with a
  serialized memory state and an aborted controller of the earlier run.\<close>

definition example_memory_state :: memory_state_in where
  "example_memory_state =
     \<lparr>in_topicTags = Some (PlainObject [(''b'', ''y''), (''10'', ''x''), (''9'', ''z'')]),
      in_taggedMessages = Some (PlainObject [(''1'', ''a'')]),
      in_topicCompaction = Some (PlainObject []),
      in_lastProcessedIndex = Some 2\<rparr>"

definition example_cognition :: cognition_in where
  "example_cognition =
     \<lparr>in_c_enabled = Some True, in_c_frequency = Some 5,
      in_c_processing = Some True, in_c_lastProcessingStartTime = Some 1000,
      in_disabledModels = Some (ModelArray [''m1'', ''m2''])\<rparr>"

definition example_memory :: memory_in where
  "example_memory =
     \<lparr>in_m_enabled = Some True, in_m_processing = Some True,
      in_m_lastProcessingStartTime = Some 2000,
      in_m_state = Some example_memory_state\<rparr>"

definition example_snapshot :: TaskLocalState where
  "example_snapshot =
     \<lparr>in_messages = None, in_requestCount = Some 3, in_runIndefinitely = None,
      in_delayAbortController = Some \<lparr>controller_id = 0, aborted = True\<rparr>,
      in_cognition = Some example_cognition,
      in_memory = Some example_memory\<rparr>"

definition example_reply :: "nat \<Rightarrow> message" where
  "example_reply k = \<lparr>msg_id = Some k, role = ''assistant'', content = ascii ''reply''\<rparr>"

text \<open>An analysis result without properties (\<^verbatim>\<open>undefined\<close>, for one).\<close>

definition no_result :: analysis_result where
  "no_result = \<lparr>res_messageCount = None, res_requestCount = None, res_processingTime = None\<rparr>"

text \<open>A task started without a state: both analyses enabled, frequency 10.\<close>

definition default_engine :: engine where
  "default_engine =
     initial_engine 0 100 [user_message 0 (ascii ''task'')] (taskGenerator_init 0 1 None)"

section \<open>The single-flight gate and traces around it\<close>

text \<open>The gate of a trigger attempt is closed when the flag of the kind is set and its
  age is within the threshold.\<close>

definition gate_closed :: "kind \<Rightarrow> engine \<Rightarrow> bool" where
  "gate_closed k s =
     (case k of
        Memory \<Rightarrow> processing (memory s) \<and>
                   \<not> processingTime (now s) (lastProcessingStartTime (memory s)) > STUCK_THRESHOLD
      | Cognition \<Rightarrow> processing (cognition s) \<and>
                   \<not> processingTime (now s) (lastProcessingStartTime (cognition s)) > STUCK_THRESHOLD)"


text \<open>One message, and the memory analysis that its debounce launches a second later.\<close>

definition first_analysis_running :: "action list" where
  "first_analysis_running = [ResponseOutput (example_reply 1), Tick 1000, MemoryDebounceFire]"


section \<open>The invariant of the event stream\<close>

text \<open>
  What holds of the events emitted so far (delivered or still queued) and of the
  operations in flight: the time stamps are in non-decreasing order and not in the
  future; every id in use is below the next uuid; an operation in flight has no
  completion event yet; and the ids of the operations in flight, of the start events and
  of the completion events are each without repetition.
\<close>

definition stream_inv :: "engine \<Rightarrow> bool" where
  "stream_inv s =
     (sorted (map timestamp (emitted s))
      \<and> (\<forall>e \<in> set (emitted s). timestamp e \<le> now s \<and> eventId e < nextId s)
      \<and> (\<forall>p \<in> set (pendingAsyncOps s). op_eventId p < nextId s
             \<and> op_eventId p \<notin> eventId ` set (filter is_complete (emitted s)))
      \<and> distinct (map op_eventId (pendingAsyncOps s))
      \<and> distinct (map eventId (filter is_start (emitted s)))
      \<and> distinct (map eventId (filter is_complete (emitted s))))"

section \<open>A processing flag that counts as stuck\<close>

text \<open>The flag is set, the start time is set and not \<open>0\<close>, and more than the threshold
  has passed since.\<close>

definition stuck :: "time \<Rightarrow> 'a proc_state_scheme \<Rightarrow> bool" where
  "stuck t p =
     (processing p \<and>
      (case lastProcessingStartTime p of
         None \<Rightarrow> False
       | Some started \<Rightarrow> started \<noteq> 0 \<and> t - started > 2 * 60 * 1000))"

definition cleared :: "'a proc_state_scheme \<Rightarrow> 'a proc_state_scheme" where
  "cleared p = p\<lparr>processing := False, lastProcessingStartTime := None\<rparr>"

definition stuck_warning :: "kind \<Rightarrow> time \<Rightarrow> 'a proc_state_scheme \<Rightarrow> log_entry" where
  "stuck_warning k t p =
     StuckWarning k (Math_round_seconds (t - or_else (lastProcessingStartTime p) 0))"

text \<open>The snapshot of the example with both analyses started at time \<open>0\<close> of the clock.\<close>

definition epoch_snapshot :: TaskLocalState where
  "epoch_snapshot =
     example_snapshot
       \<lparr>in_cognition := Some (example_cognition\<lparr>in_c_lastProcessingStartTime := Some 0\<rparr>),
        in_memory := Some (example_memory\<lparr>in_m_lastProcessingStartTime := Some 0\<rparr>)\<rparr>"

text \<open>The state \<^verbatim>\<open>{}\<close> that \<^verbatim>\<open>taskLocalState || {}\<close> puts in the place of none.\<close>

definition no_state :: TaskLocalState where
  "no_state = \<lparr>in_messages = None, in_requestCount = None, in_runIndefinitely = None,
                in_delayAbortController = None, in_cognition = None, in_memory = None\<rparr>"

text \<open>A task resumed from a snapshot at the given time, with no messages so far.\<close>

definition resumed_engine :: "time \<Rightarrow> TaskLocalState \<Rightarrow> engine" where
  "resumed_engine t snapshot = initial_engine t 100 [] (taskGenerator_init t 7 (Some snapshot))"

section \<open>The completion flag along the suspensions\<close>

text \<open>Along a list of suspensions, \<^verbatim>\<open>taskCompleted\<close> is set at a suspension exactly
  when a terminal event has been yielded up to and including it (or it was set
  before).\<close>

fun completed_follows :: "bool \<Rightarrow> suspension list \<Rightarrow> bool" where
  "completed_follows c [] = True"
| "completed_follows c ((e, g) # ys) =
     (taskCompleted g = (c \<or> is_terminal e) \<and> completed_follows (c \<or> is_terminal e) ys)"

definition any_terminal :: "suspension list \<Rightarrow> bool" where
  "any_terminal ys = list_ex (\<lambda>y. is_terminal (fst y)) ys"

text \<open>Two meta events that are queued before the first provider event arrives.\<close>

definition example_event :: "nat \<Rightarrow> meta_event" where
  "example_event i =
     \<lparr>ev_type = metamemory_event, operation = tagging_start, eventId = i,
      ev_data = MemoryStartData 2 1, timestamp = 1000\<rparr>"

definition two_queued :: "stream_item list list" where
  "two_queued = [[Push (example_event 100), Push (example_event 101), Event response_output]]"

section \<open>Single flight\<close>


text \<open>The number of forced resets so far: each one logs a warning.\<close>

definition forced_resets :: "engine \<Rightarrow> nat" where
  "forced_resets s =
     length (filter (\<lambda>w. case w of StuckWarning _ _ \<Rightarrow> True | _ \<Rightarrow> False) (console s))"








section \<open>Bursts of messages and the memory debounce\<close>




text \<open>The start events of memory analyses emitted so far.\<close>

definition memory_starts :: "engine \<Rightarrow> meta_event list" where
  "memory_starts s = filter (\<lambda>e. operation e = tagging_start) (emitted s)"



section \<open>Unfolding rules\<close>

lemmas process_defs = processMetaMemory_def processMetaCognition_def launch_memory_def
  launch_cognition_def trigger_stuck_check_def

lemmas chain_defs = memoryOp_def cognitionOp_def race_def promise_then_def promise_catch_def
  promise_finally_def memory_on_success_def cognition_on_success_def on_error_def
  isTimeout_def timeout_error_def abort_error_def remove_op_def memory_finally_def
  cognition_finally_def reported_processingTime_def

lemmas eval_defs = default_engine_def initial_engine_def taskGenerator_init_def or_else_def
  init_cognition_def init_memory_def init_memory_state_def init_disabledModels_def
  resume_stuck_check_def apply_recovery_def effective_frequency_def new_AbortController_def
  user_message_def example_reply_def ascii_def no_result_def
  onResponseOutput_def push_message_def bumpMetaMemoryTimer_def bumpMetaCognitionTimer_def
  memoryDebounceFire_def cognitionDebounceFire_def cognitionPeriodicFire_def
  processMetaMemory_def processMetaCognition_def launch_memory_def launch_cognition_def
  trigger_stuck_check_def processingTime_def STUCK_THRESHOLD_def Math_round_seconds_def
  settle_def settle_op_def call_returns_def chain_defs
  MEMORY_TIMEOUT_def COGNITION_TIMEOUT_def drain_def emitted_def in_flight_def tracked_def
  is_start_def is_complete_def Let_def

section \<open>What the operations leave unchanged\<close>


lemma processMetaMemory_cog [simp]:
  "cognition (processMetaMemory s) = cognition s"
  "messagesSinceLastCognition (processMetaMemory s) = messagesSinceLastCognition s"
  "cognitionDebounceTimer (processMetaMemory s) = cognitionDebounceTimer s"
  "memoryDebounceTimer (processMetaMemory s) = memoryDebounceTimer s"
  "now (processMetaMemory s) = now s"
  "has_metamemory (processMetaMemory s) = has_metamemory s"
  "enabled (memory (processMetaMemory s)) = enabled (memory s)"
  by (simp_all add: process_defs Let_def)

lemma processMetaCognition_keeps [simp]:
  "enabled (cognition (processMetaCognition s)) = enabled (cognition s)"
  "frequency (cognition (processMetaCognition s)) = frequency (cognition s)"
  "messagesSinceLastCognition (processMetaCognition s) = messagesSinceLastCognition s"
  "now (processMetaCognition s) = now s"
  "memory (processMetaCognition s) = memory s"
  "has_metamemory (processMetaCognition s) = has_metamemory s"
  "memoryDebounceTimer (processMetaCognition s) = memoryDebounceTimer s"
  "cognitionDebounceTimer (processMetaCognition s) = cognitionDebounceTimer s"
  "unprocessedMemoryMessages (processMetaCognition s) = unprocessedMemoryMessages s"
  by (simp_all add: process_defs Let_def)

lemma bumpMetaMemoryTimer_cog [simp]:
  "cognition (bumpMetaMemoryTimer s) = cognition s"
  "messagesSinceLastCognition (bumpMetaMemoryTimer s) = messagesSinceLastCognition s"
  "cognitionDebounceTimer (bumpMetaMemoryTimer s) = cognitionDebounceTimer s"
  "now (bumpMetaMemoryTimer s) = now s"
  by (simp_all add: bumpMetaMemoryTimer_def Let_def)

lemma bumpMetaCognitionTimer_mem [simp]:
  "asyncEventQueue (bumpMetaCognitionTimer s) = asyncEventQueue s"
  "pendingAsyncOps (bumpMetaCognitionTimer s) = pendingAsyncOps s"
  "outstandingCalls (bumpMetaCognitionTimer s) = outstandingCalls s"
  "unprocessedMemoryMessages (bumpMetaCognitionTimer s) = unprocessedMemoryMessages s"
  "memoryDebounceTimer (bumpMetaCognitionTimer s) = memoryDebounceTimer s"
  "memory (bumpMetaCognitionTimer s) = memory s"
  "cognition (bumpMetaCognitionTimer s) = cognition s"
  "has_metamemory (bumpMetaCognitionTimer s) = has_metamemory s"
  "console (bumpMetaCognitionTimer s) = console s"
  "now (bumpMetaCognitionTimer s) = now s"
  by (simp_all add: bumpMetaCognitionTimer_def Let_def)

lemma push_message_fields [simp]:
  "now (push_message m s) = now s"
  "memory (push_message m s) = memory s"
  "cognition (push_message m s) = cognition s"
  "has_metamemory (push_message m s) = has_metamemory s"
  "asyncEventQueue (push_message m s) = asyncEventQueue s"
  "pendingAsyncOps (push_message m s) = pendingAsyncOps s"
  "outstandingCalls (push_message m s) = outstandingCalls s"
  "console (push_message m s) = console s"
  "delivered (push_message m s) = delivered s"
  "memoryDebounceTimer (push_message m s) = memoryDebounceTimer s"
  "cognitionDebounceTimer (push_message m s) = cognitionDebounceTimer s"
  "messagesSinceLastCognition (push_message m s) = messagesSinceLastCognition s"
  "length (messages (push_message m s)) = length (messages s) + 1"
  "length (unprocessedMemoryMessages (push_message m s)) = length (unprocessedMemoryMessages s) + 1"
  "unprocessedMemoryMessages (push_message m s) \<noteq> []"
  "unprocessedCognitionMessages (push_message m s) \<noteq> []"
  "nextId (push_message m s) = (case msg_id m of None \<Rightarrow> Suc (nextId s) | Some _ \<Rightarrow> nextId s)"
  by (simp_all add: push_message_def Let_def split: option.splits)

lemma onResponseOutput_cognition [simp]: "cognition (onResponseOutput m s) = cognition s"
  by (simp add: onResponseOutput_def Let_def)





lemma settle_op_succeeded:
  "\<exists>c. emitted (settle_op p (Succeeded r) s) = emitted s @ [c] \<and> is_complete c \<and> \<not> is_start c
       \<and> eventId c = op_eventId p \<and> timestamp c = now s"
  by (cases "op_kind p")
     (simp_all add: settle_op_def chain_defs Let_def emitted_def is_complete_def is_start_def)

lemma settle_op_not_succeeded:
  "\<forall>r. out \<noteq> Succeeded r \<Longrightarrow> emitted (settle_op p out s) = emitted s"
  by (cases out; cases "op_kind p";
      simp add: settle_op_def chain_defs Let_def emitted_def
        split: thrown.splits js_message.splits sum.splits)

lemma drainAll_eq: "drainAll q out = ([], out @ q)"
  by (induction q arbitrary: out) simp_all

lemma emitted_drain [simp]: "emitted (drain s) = emitted s"
  by (simp add: drain_def drainAll_eq emitted_def)

lemma settle_op_fields:
  "memory (settle_op p out s) =
     (case op_kind p of
        Memory \<Rightarrow> (memory s)\<lparr>processing := False, lastProcessingStartTime := None\<rparr>
      | Cognition \<Rightarrow> memory s)"
  "cognition (settle_op p out s) =
     (case op_kind p of
        Memory \<Rightarrow> cognition s
      | Cognition \<Rightarrow> (cognition s)\<lparr>processing := False, lastProcessingStartTime := None\<rparr>)"
  "outstandingCalls (settle_op p out s) =
     (case out of TimedOut \<Rightarrow> outstandingCalls s | Aborted \<Rightarrow> outstandingCalls s
      | _ \<Rightarrow> remove_op p (outstandingCalls s))"
  "forced_resets (settle_op p out s) = forced_resets s"
  "has_metamemory (settle_op p out s) = has_metamemory s"
  "unprocessedMemoryMessages (settle_op p out s) = unprocessedMemoryMessages s"
  "unprocessedCognitionMessages (settle_op p out s) = unprocessedCognitionMessages s"
  "memoryDebounceTimer (settle_op p out s) = memoryDebounceTimer s"
  "cognitionDebounceTimer (settle_op p out s) = cognitionDebounceTimer s"
  "messagesSinceLastCognition (settle_op p out s) = messagesSinceLastCognition s"
  "messages (settle_op p out s) = messages s"
  by (cases out; cases "op_kind p";
      simp add: settle_op_def chain_defs Let_def forced_resets_def
        split: thrown.splits js_message.splits sum.splits)+


section \<open>Stuck-state recovery: when a flag is cleared\<close>

lemma trigger_stuck_check_eq:
  "trigger_stuck_check k t p =
     (if \<not> processing p then NotProcessing
      else if stuck t p then ForcedReset (cleared p) (stuck_warning k t p)
      else StillProcessing)"
  by (simp add: trigger_stuck_check_def stuck_def cleared_def stuck_warning_def processingTime_def
        STUCK_THRESHOLD_def or_else_def split: option.splits)

lemma resume_stuck_check_eq:
  "resume_stuck_check k t p = trigger_stuck_check k t p"
  by (simp add: trigger_stuck_check_def resume_stuck_check_def processingTime_def
        STUCK_THRESHOLD_def split: option.splits)

lemma apply_recovery_eq:
  "apply_recovery p (resume_stuck_check k t p) =
     (if stuck t p then (cleared p, [stuck_warning k t p]) else (p, []))"
  by (simp add: resume_stuck_check_eq trigger_stuck_check_eq apply_recovery_def stuck_def)

text \<open>
  Claim C3, as the code has it. A flag counts as stuck when it is set, its start time
  is set and is not \<open>0\<close>, and more than 2 minutes have passed since the start. The check
  of a trigger attempt and the check at task start and resume agree: a stuck flag is
  cleared together with its start time, with a warning that carries the elapsed time in
  rounded seconds; a set flag that is not stuck is left alone. A trigger attempt that
  finds a set flag that is not stuck leaves the whole engine as it is; one that finds a
  stuck flag clears flag and start time, records exactly that warning, and goes on to
  launch the next analysis when messages are waiting. A task start or resume takes over
  the flags of the given state, cleared where they are stuck, and records one warning
  for each cleared flag.
\<close>

theorem stuck_recovery_clears_iff_stuck:
  "trigger_stuck_check k t p =
     (if \<not> processing p then NotProcessing
      else if stuck t p
      then ForcedReset (p\<lparr>processing := False, lastProcessingStartTime := None\<rparr>)
             (StuckWarning k (Math_round_seconds (t - the (lastProcessingStartTime p))))
      else StillProcessing)
   \<and> resume_stuck_check k t p = trigger_stuck_check k t p
   \<and> (has_metamemory s \<and> enabled (memory s) \<and> processing (memory s) \<longrightarrow>
        processMetaMemory s =
          (if stuck (now s) (memory s)
           then (let s1 = s\<lparr>memory := (memory s)\<lparr>processing := False, lastProcessingStartTime := None\<rparr>,
                             console := console s @
                               [StuckWarning Memory (Math_round_seconds
                                  (now s - the (lastProcessingStartTime (memory s))))]\<rparr>
                 in if unprocessedMemoryMessages s = [] then s1 else launch_memory s1)
           else s))
   \<and> (processing (cognition s) \<longrightarrow>
        processMetaCognition s =
          (if stuck (now s) (cognition s)
           then (let s1 = s\<lparr>cognition := (cognition s)\<lparr>processing := False, lastProcessingStartTime := None\<rparr>,
                             console := console s @
                               [StuckWarning Cognition (Math_round_seconds
                                  (now s - the (lastProcessingStartTime (cognition s))))]\<rparr>
                 in if unprocessedCognitionMessages s = [] then s1 else launch_cognition s1)
           else s))
   \<and> ts_cognition (taskGenerator_init t fresh given) =
        (if stuck t (init_cognition (in_cognition (or_else given no_state)))
         then (init_cognition (in_cognition (or_else given no_state)))
                \<lparr>processing := False, lastProcessingStartTime := None\<rparr>
         else init_cognition (in_cognition (or_else given no_state)))
   \<and> ts_memory (taskGenerator_init t fresh given) =
        (if stuck t (init_memory (in_memory (or_else given no_state)))
         then (init_memory (in_memory (or_else given no_state)))
                \<lparr>processing := False, lastProcessingStartTime := None\<rparr>
         else init_memory (in_memory (or_else given no_state)))
   \<and> ts_console (taskGenerator_init t fresh given) =
        (if stuck t (init_cognition (in_cognition (or_else given no_state)))
         then [StuckWarning Cognition (Math_round_seconds
                 (t - the (lastProcessingStartTime (init_cognition (in_cognition (or_else given no_state))))))]
         else [])
        @ (if stuck t (init_memory (in_memory (or_else given no_state)))
           then [StuckWarning Memory (Math_round_seconds
                   (t - the (lastProcessingStartTime (init_memory (in_memory (or_else given no_state))))))]
           else [])"
proof -
  have the_start: "\<And>q u. stuck u q \<Longrightarrow> or_else (lastProcessingStartTime q) 0 = the (lastProcessingStartTime q)"
    by (auto simp: stuck_def or_else_def split: option.splits)
  have a: "trigger_stuck_check k t p =
     (if \<not> processing p then NotProcessing
      else if stuck t p
      then ForcedReset (p\<lparr>processing := False, lastProcessingStartTime := None\<rparr>)
             (StuckWarning k (Math_round_seconds (t - the (lastProcessingStartTime p))))
      else StillProcessing)"
    using the_start[of t p]
    by (simp add: trigger_stuck_check_eq cleared_def stuck_warning_def)
  have b: "resume_stuck_check k t p = trigger_stuck_check k t p"
    by (rule resume_stuck_check_eq)
  have c: "has_metamemory s \<and> enabled (memory s) \<and> processing (memory s) \<longrightarrow>
        processMetaMemory s =
          (if stuck (now s) (memory s)
           then (let s1 = s\<lparr>memory := (memory s)\<lparr>processing := False, lastProcessingStartTime := None\<rparr>,
                             console := console s @
                               [StuckWarning Memory (Math_round_seconds
                                  (now s - the (lastProcessingStartTime (memory s))))]\<rparr>
                 in if unprocessedMemoryMessages s = [] then s1 else launch_memory s1)
           else s)"
    using the_start[of "now s" "memory s"]
    by (simp add: processMetaMemory_def trigger_stuck_check_eq cleared_def stuck_warning_def Let_def)
  have d: "processing (cognition s) \<longrightarrow>
        processMetaCognition s =
          (if stuck (now s) (cognition s)
           then (let s1 = s\<lparr>cognition := (cognition s)\<lparr>processing := False, lastProcessingStartTime := None\<rparr>,
                             console := console s @
                               [StuckWarning Cognition (Math_round_seconds
                                  (now s - the (lastProcessingStartTime (cognition s))))]\<rparr>
                 in if unprocessedCognitionMessages s = [] then s1 else launch_cognition s1)
           else s)"
    using the_start[of "now s" "cognition s"]
    by (simp add: processMetaCognition_def trigger_stuck_check_eq cleared_def stuck_warning_def Let_def)
  let ?c = "init_cognition (in_cognition (or_else given no_state))"
  let ?m = "init_memory (in_memory (or_else given no_state))"
  have init: "taskGenerator_init t fresh given =
      \<lparr>ts_requestCount = or_else (in_requestCount (or_else given no_state)) 0,
       delayAbortController = new_AbortController fresh,
       ts_cognition = fst (apply_recovery ?c (resume_stuck_check Cognition t ?c)),
       disabledModels = init_disabledModels (in_cognition (or_else given no_state)),
       ts_memory = fst (apply_recovery ?m (resume_stuck_check Memory t ?m)),
       ts_memory_state = init_memory_state (in_memory (or_else given no_state)),
       ts_console = snd (apply_recovery ?c (resume_stuck_check Cognition t ?c))
                    @ snd (apply_recovery ?m (resume_stuck_check Memory t ?m))\<rparr>"
    by (simp add: taskGenerator_init_def no_state_def Let_def split: prod.splits)
  have e: "ts_cognition (taskGenerator_init t fresh given) =
        (if stuck t ?c then ?c\<lparr>processing := False, lastProcessingStartTime := None\<rparr> else ?c)"
    by (simp add: init apply_recovery_eq cleared_def)
  have f: "ts_memory (taskGenerator_init t fresh given) =
        (if stuck t ?m then ?m\<lparr>processing := False, lastProcessingStartTime := None\<rparr> else ?m)"
    by (simp add: init apply_recovery_eq cleared_def)
  have g: "ts_console (taskGenerator_init t fresh given) =
        (if stuck t ?c
         then [StuckWarning Cognition (Math_round_seconds (t - the (lastProcessingStartTime ?c)))]
         else [])
        @ (if stuck t ?m
           then [StuckWarning Memory (Math_round_seconds (t - the (lastProcessingStartTime ?m)))]
           else [])"
    using the_start[of t ?c] the_start[of t ?m]
    by (simp add: init apply_recovery_eq stuck_warning_def)
  show ?thesis using a b c d e f g by blast
qed

theorem stuck_recovery_witness:
  "trigger_stuck_check Memory 200000
     \<lparr>enabled = True, processing = True, lastProcessingStartTime = Some 1000\<rparr> =
   ForcedReset \<lparr>enabled = True, processing = False, lastProcessingStartTime = None\<rparr>
     (StuckWarning Memory 199)
   \<and> memory (processMetaMemory (run (first_analysis_running @ [Tick 130000]) default_engine)) =
     \<lparr>enabled = True, processing = False, lastProcessingStartTime = None\<rparr>
   \<and> console (processMetaMemory (run (first_analysis_running @ [Tick 130000]) default_engine)) =
     [StuckWarning Memory 130]
   \<and> processMetaMemory (run (first_analysis_running @ [Tick 119000]) default_engine) =
     run (first_analysis_running @ [Tick 119000]) default_engine
   \<and> ts_console (taskGenerator_init 500000 7 (Some example_snapshot)) =
     [StuckWarning Cognition 499, StuckWarning Memory 498]
   \<and> \<not> processing (ts_memory (taskGenerator_init 500000 7 (Some example_snapshot)))
   \<and> processing (ts_memory (taskGenerator_init 100000 7 (Some example_snapshot)))"
proof -
  let ?p = "\<lparr>enabled = True, processing = True, lastProcessingStartTime = Some 1000\<rparr>"
  let ?s = "run (first_analysis_running @ [Tick 130000]) default_engine"
  let ?y = "run (first_analysis_running @ [Tick 119000]) default_engine"
  have st: "has_metamemory ?s \<and> enabled (memory ?s) \<and> processing (memory ?s)"
    "console ?s = []" "now ?s = 131000" "memory ?s = ?p" "unprocessedMemoryMessages ?s = []"
    by (simp_all add: first_analysis_running_def eval_defs)
  have yg: "has_metamemory ?y \<and> enabled (memory ?y) \<and> processing (memory ?y)"
    "now ?y = 120000" "memory ?y = ?p"
    by (simp_all add: first_analysis_running_def eval_defs)
  have sp: "stuck 200000 ?p" "stuck 131000 ?p" "\<not> stuck 120000 ?p"
    by (simp_all add: stuck_def)
  have ic: "init_cognition (in_cognition (or_else (Some example_snapshot) no_state)) =
      \<lparr>enabled = True, processing = True, lastProcessingStartTime = Some 1000, frequency = 5\<rparr>"
    and im: "init_memory (in_memory (or_else (Some example_snapshot) no_state)) =
      \<lparr>enabled = True, processing = True, lastProcessingStartTime = Some 2000\<rparr>"
    by (simp_all add: or_else_def example_snapshot_def example_cognition_def example_memory_def
          init_cognition_def init_memory_def effective_frequency_def Let_def)
  note thm1 = stuck_recovery_clears_iff_stuck
    [where k = Memory and t = 200000 and p = ?p and s = ?s and fresh = 7
       and given = "Some example_snapshot"]
  note thm2 = stuck_recovery_clears_iff_stuck
    [where k = Memory and t = 500000 and p = ?p and s = ?y and fresh = 7
       and given = "Some example_snapshot"]
  note thm3 = stuck_recovery_clears_iff_stuck
    [where k = Memory and t = 100000 and p = ?p and s = ?y and fresh = 7
       and given = "Some example_snapshot"]
  have a: "trigger_stuck_check Memory 200000 ?p =
      ForcedReset \<lparr>enabled = True, processing = False, lastProcessingStartTime = None\<rparr>
        (StuckWarning Memory 199)"
    using thm1 by (simp add: sp Math_round_seconds_def)
  have b: "processMetaMemory ?s =
      ?s\<lparr>memory := ?p\<lparr>processing := False, lastProcessingStartTime := None\<rparr>,
         console := [StuckWarning Memory 130]\<rparr>"
    using thm1 st(1) by (simp add: st(2-) sp Math_round_seconds_def Let_def del: run.simps)
  have c: "processMetaMemory ?y = ?y"
    using thm2 yg(1) by (simp add: yg(2-) sp del: run.simps)
  have d: "ts_console (taskGenerator_init 500000 7 (Some example_snapshot)) =
     [StuckWarning Cognition 499, StuckWarning Memory 498]"
    "\<not> processing (ts_memory (taskGenerator_init 500000 7 (Some example_snapshot)))"
    using thm2 by (simp_all add: ic im stuck_def Math_round_seconds_def)
  have e: "processing (ts_memory (taskGenerator_init 100000 7 (Some example_snapshot)))"
    using thm3 by (simp add: ic im stuck_def)
  show ?thesis
    unfolding b c using a d e by simp
qed

text \<open>
  Claim C3 as stated fails for a start time of \<open>0\<close>, which the checks read as no start
  time: the snapshot's analyses were started at time \<open>0\<close> and the task is resumed 500
  seconds later. Neither flag is cleared on resume and no warning is recorded; a message
  whose debounce fires a second later finds the memory flag set and launches nothing,
  and the flag and its start time are as before.
\<close>

theorem stuck_recovery_counterexample:
  "500000 - (0::int) > STUCK_THRESHOLD
   \<and> memory (resumed_engine 500000 epoch_snapshot) =
       \<lparr>enabled = True, processing = True, lastProcessingStartTime = Some 0\<rparr>
   \<and> cognition (resumed_engine 500000 epoch_snapshot) =
       \<lparr>enabled = True, processing = True, lastProcessingStartTime = Some 0, frequency = 5\<rparr>
   \<and> console (resumed_engine 500000 epoch_snapshot) = []
   \<and> memory (run [ResponseOutput (example_reply 1), Tick 1000, MemoryDebounceFire,
                   CognitionPeriodicFire]
               (resumed_engine 500000 epoch_snapshot)) =
       \<lparr>enabled = True, processing = True, lastProcessingStartTime = Some 0\<rparr>
   \<and> cognition (run [ResponseOutput (example_reply 1), Tick 180000, CognitionPeriodicFire]
               (resumed_engine 500000 epoch_snapshot)) =
       \<lparr>enabled = True, processing = True, lastProcessingStartTime = Some 0, frequency = 5\<rparr>
   \<and> emitted (run [ResponseOutput (example_reply 1), Tick 1000, MemoryDebounceFire,
                    Tick 179000, CognitionPeriodicFire]
               (resumed_engine 500000 epoch_snapshot)) = []
   \<and> console (run [ResponseOutput (example_reply 1), Tick 1000, MemoryDebounceFire,
                    Tick 179000, CognitionPeriodicFire]
               (resumed_engine 500000 epoch_snapshot)) = []"
  by (simp add: resumed_engine_def epoch_snapshot_def example_snapshot_def example_cognition_def
        example_memory_def eval_defs)

section \<open>Failures of an analysis and the tracked promise\<close>

lemma timeout_labels:
  "isTimeout (timeout_error k) = Inr True" "isTimeout (abort_error k) = Inr False"
  by (cases k; simp add: isTimeout_def timeout_error_def abort_error_def)+

text \<open>
  Claim C6, evaluated. For every launched analysis of either kind and every way its
  race can end, the \<^verbatim>\<open>finally\<close> handler has cleared the processing flag and the start
  time, and the queue gains the one completion event with the start's correlation id on
  success and nothing otherwise. A timeout and an abort are caught and logged, and so
  is an analysis error whose value has a readable \<^verbatim>\<open>message\<close>. But when the analysis
  rejects with \<^verbatim>\<open>undefined\<close> or \<^verbatim>\<open>null\<close>, or with a value whose \<^verbatim>\<open>message\<close> has no
  callable \<^verbatim>\<open>includes\<close>, the \<^verbatim>\<open>catch\<close> handler itself throws, nothing is logged, and
  the tracked promise is rejected with a \<^verbatim>\<open>TypeError\<close>.
\<close>

theorem analysis_failure_escapes_for_nullish_rejection:
  "fst (memoryOp p (Failed Nullish) s) = Rejected TypeError
   \<and> fst (cognitionOp p (Failed Nullish) s) = Rejected TypeError
   \<and> console (snd (memoryOp p (Failed Nullish) s)) = console s
   \<and> console (snd (cognitionOp p (Failed Nullish) s)) = console s
   \<and> fst (memoryOp p out s) =
       (case out of
          Failed e \<Rightarrow> (case isTimeout e of Inl e' \<Rightarrow> Rejected e' | Inr b \<Rightarrow> Fulfilled ())
        | _ \<Rightarrow> Fulfilled ())
   \<and> fst (cognitionOp p out s) =
       (case out of
          Failed e \<Rightarrow> (case isTimeout e of Inl e' \<Rightarrow> Rejected e' | Inr b \<Rightarrow> Fulfilled ())
        | _ \<Rightarrow> Fulfilled ())
   \<and> console (snd (memoryOp p out s)) =
       console s @
       (case out of
          Succeeded r \<Rightarrow> []
        | Failed e \<Rightarrow> (case isTimeout e of Inl e' \<Rightarrow> [] | Inr b \<Rightarrow> [ProcessingFailure Memory b])
        | TimedOut \<Rightarrow> [ProcessingFailure Memory True]
        | Aborted \<Rightarrow> [ProcessingFailure Memory False])
   \<and> console (snd (cognitionOp p out s)) =
       console s @
       (case out of
          Succeeded r \<Rightarrow> []
        | Failed e \<Rightarrow> (case isTimeout e of Inl e' \<Rightarrow> [] | Inr b \<Rightarrow> [ProcessingFailure Cognition b])
        | TimedOut \<Rightarrow> [ProcessingFailure Cognition True]
        | Aborted \<Rightarrow> [ProcessingFailure Cognition False])
   \<and> \<not> processing (memory (snd (memoryOp p out s)))
   \<and> lastProcessingStartTime (memory (snd (memoryOp p out s))) = None
   \<and> \<not> processing (cognition (snd (cognitionOp p out s)))
   \<and> lastProcessingStartTime (cognition (snd (cognitionOp p out s))) = None
   \<and> asyncEventQueue (snd (memoryOp p out s)) =
       asyncEventQueue s @
       (case out of
          Succeeded r \<Rightarrow>
            [\<lparr>ev_type = metamemory_event, operation = tagging_complete, eventId = op_eventId p,
              ev_data = MemoryCompleteData
                (or_else (res_messageCount r) (length (messages s)))
                (or_else (res_processingTime r) (reported_processingTime s p)),
              timestamp = now s\<rparr>]
        | _ \<Rightarrow> [])
   \<and> asyncEventQueue (snd (cognitionOp p out s)) =
       asyncEventQueue s @
       (case out of
          Succeeded r \<Rightarrow>
            [\<lparr>ev_type = metacognition_event, operation = analysis_complete, eventId = op_eventId p,
              ev_data = CognitionCompleteData
                (or_else (res_requestCount r) (requestCount s))
                (or_else (res_processingTime r) (reported_processingTime s p)),
              timestamp = now s\<rparr>]
        | _ \<Rightarrow> [])"
proof -
  have nullish: "isTimeout Nullish = Inl TypeError" by (simp add: isTimeout_def)
  have m: "memoryOp p out s =
     (case out of
        Succeeded r \<Rightarrow> (Fulfilled (), memory_finally p (memory_on_success p r s))
      | Failed e \<Rightarrow> (case isTimeout e of
                       Inl e' \<Rightarrow> (Rejected e', memory_finally p s)
                     | Inr b \<Rightarrow> (Fulfilled (), memory_finally p
                                   (s\<lparr>console := console s @ [ProcessingFailure Memory b]\<rparr>)))
      | TimedOut \<Rightarrow> (Fulfilled (), memory_finally p
                       (s\<lparr>console := console s @ [ProcessingFailure Memory True]\<rparr>))
      | Aborted \<Rightarrow> (Fulfilled (), memory_finally p
                       (s\<lparr>console := console s @ [ProcessingFailure Memory False]\<rparr>)))"
    by (cases out)
       (simp_all add: memoryOp_def race_def promise_then_def promise_catch_def promise_finally_def
          on_error_def timeout_labels split: sum.splits)
  have c: "cognitionOp p out s =
     (case out of
        Succeeded r \<Rightarrow> (Fulfilled (), cognition_finally p (cognition_on_success p r s))
      | Failed e \<Rightarrow> (case isTimeout e of
                       Inl e' \<Rightarrow> (Rejected e', cognition_finally p s)
                     | Inr b \<Rightarrow> (Fulfilled (), cognition_finally p
                                   (s\<lparr>console := console s @ [ProcessingFailure Cognition b]\<rparr>)))
      | TimedOut \<Rightarrow> (Fulfilled (), cognition_finally p
                       (s\<lparr>console := console s @ [ProcessingFailure Cognition True]\<rparr>))
      | Aborted \<Rightarrow> (Fulfilled (), cognition_finally p
                       (s\<lparr>console := console s @ [ProcessingFailure Cognition False]\<rparr>)))"
    by (cases out)
       (simp_all add: cognitionOp_def race_def promise_then_def promise_catch_def promise_finally_def
          on_error_def timeout_labels split: sum.splits)
  have mn: "memoryOp p (Failed Nullish) s = (Rejected TypeError, memory_finally p s)"
    unfolding memoryOp_def race_def promise_then_def promise_catch_def promise_finally_def on_error_def
    by (simp add: nullish)
  have cn: "cognitionOp p (Failed Nullish) s = (Rejected TypeError, cognition_finally p s)"
    unfolding cognitionOp_def race_def promise_then_def promise_catch_def promise_finally_def on_error_def
    by (simp add: nullish)
  show ?thesis
    unfolding mn cn m c
    by (cases out)
       (simp_all add: memory_finally_def cognition_finally_def memory_on_success_def
          cognition_on_success_def split: sum.splits)
qed

section \<open>The conversation history of a started or resumed task\<close>






section \<open>Resuming from a serialized snapshot\<close>














section \<open>The batch threshold\<close>

lemma gate_closed_push [simp]:
  "gate_closed k (push_message m s\<lparr>memoryDebounceTimer := x\<rparr>) = gate_closed k s"
  "gate_closed k (push_message m s) = gate_closed k s"
  by (simp_all add: gate_closed_def split: kind.splits)





section \<open>Correlation ids and the order of delivery\<close>







lemma stream_inv_flags [simp]:
  "stream_inv (s\<lparr>memory := m, console := c\<rparr>) = stream_inv s"
  "stream_inv (s\<lparr>cognition := g, console := c\<rparr>) = stream_inv s"
  "stream_inv (s\<lparr>memoryDebounceTimer := x\<rparr>) = stream_inv s"
  "stream_inv (s\<lparr>cognitionDebounceTimer := x\<rparr>) = stream_inv s"
  "stream_inv (s\<lparr>cognitionTimer := x\<rparr>) = stream_inv s"
  by (simp_all add: stream_inv_def emitted_def)

















section \<open>Single flight\<close>

























section \<open>The memory debounce\<close>

lemma memory_starts_processMetaCognition [simp]:
  "memory_starts (processMetaCognition s) = memory_starts s"
  "messages (processMetaCognition s) = messages s"
  by (simp_all add: memory_starts_def emitted_def process_defs Let_def)

lemma memory_starts_settle_op [simp]: "memory_starts (settle_op p out s) = memory_starts s"
proof (cases "\<exists>r. out = Succeeded r")
  case True
  then obtain r where out: "out = Succeeded r" by blast
  from settle_op_succeeded[of p r s] obtain c where
    c: "emitted (settle_op p (Succeeded r) s) = emitted s @ [c]" "is_complete c" by blast
  then show ?thesis by (auto simp: memory_starts_def out is_complete_def)
next
  case False
  then have "emitted (settle_op p out s) = emitted s"
    by (intro settle_op_not_succeeded) blast
  then show ?thesis by (simp add: memory_starts_def)
qed

lemma enabled_settle_op [simp]: "enabled (memory (settle_op p out s)) = enabled (memory s)"
  by (simp add: settle_op_fields split: kind.splits)











section \<open>The terminal event of a torn-down run\<close>

lemma completed_follows_append:
  "completed_follows c (xs @ ys) =
     (completed_follows c xs \<and> completed_follows (c \<or> any_terminal xs) ys)"
  by (induction xs arbitrary: c) (auto simp: any_terminal_def)

lemma any_terminal_append [simp]:
  "any_terminal (xs @ ys) = (any_terminal xs \<or> any_terminal ys)"
  by (simp add: any_terminal_def)

lemma drain_queue_follows:
  "completed_follows (taskCompleted g) (drain_queue q g)"
  "\<not> any_terminal (drain_queue q g)"
  "\<forall>y \<in> set (drain_queue q g). taskStartEmitted (snd y) = taskStartEmitted g"
  by (induction q) (simp_all add: any_terminal_def is_terminal_def)

lemma drain_queue_events: "map fst (drain_queue q g) = map meta q"
  by (induction q) simp_all

lemma completeEvent_Some:
  "completeEvent ri ev = Some ce \<Longrightarrow> is_terminal ce \<and> \<not> ri"
  by (cases ev) (auto simp: completeEvent_def completion_event_def is_terminal_def split: if_splits)

lemma on_provider_event_follows:
  assumes "on_provider_event ri ev g = (here, g2)"
  shows "completed_follows (taskCompleted g) here
       \<and> taskCompleted g2 = (taskCompleted g \<or> any_terminal here)
       \<and> (\<forall>y \<in> set here. taskStartEmitted (snd y) = taskStartEmitted g)
       \<and> taskStartEmitted g2 = taskStartEmitted g
       \<and> (isComplete g2 \<longrightarrow> isComplete g \<or> taskCompleted g2)
       \<and> (ri \<longrightarrow> \<not> any_terminal here)"
proof -
  note d = drain_queue_follows[where g = g and q = "queue g"]
  have p: "\<not> is_terminal (provider ev)" by (simp add: is_terminal_def)
  show ?thesis
  proof (cases "completeEvent ri ev")
    case None
    then have "here = drain_queue (queue g) g @ [(provider ev, g\<lparr>queue := []\<rparr>)]"
      and "g2 = g\<lparr>queue := []\<rparr>"
      using assms by (auto simp: on_provider_event_def Let_def)
    then show ?thesis using d p
      by (simp add: completed_follows_append any_terminal_def)
  next
    case (Some ce)
    then have "here = drain_queue (queue g) g @
        [(provider ev, g\<lparr>queue := []\<rparr>),
         (ce, g\<lparr>queue := [], isComplete := True, taskCompleted := True\<rparr>)]"
      and "g2 = g\<lparr>queue := [], isComplete := True, taskCompleted := True\<rparr>"
      using assms by (auto simp: on_provider_event_def Let_def)
    then show ?thesis using d p completeEvent_Some[OF Some]
      by (simp add: completed_follows_append any_terminal_def)
  qed
qed

lemma run_request_follows:
  "run_request ri items g = (ys, err, g') \<Longrightarrow>
   completed_follows (taskCompleted g) ys
   \<and> taskCompleted g' = (taskCompleted g \<or> any_terminal ys)
   \<and> (\<forall>y \<in> set ys. taskStartEmitted (snd y) = taskStartEmitted g)
   \<and> taskStartEmitted g' = taskStartEmitted g
   \<and> (isComplete g' \<longrightarrow> isComplete g \<or> taskCompleted g')
   \<and> (ri \<longrightarrow> \<not> any_terminal ys)"
proof (induction ri items g arbitrary: ys err g' rule: run_request.induct)
  case (1 ri g)
  then show ?case by (simp add: any_terminal_def)
next
  case (2 ri e items g)
  from "2.prems" have "run_request ri items (g\<lparr>queue := queue g @ [e]\<rparr>) = (ys, err, g')" by simp
  from "2.IH"[OF this] show ?case by auto
next
  case (3 ri m items g)
  then show ?case by (auto simp: any_terminal_def)
next
  case (4 ri ev items g)
  obtain here g2 where h: "on_provider_event ri ev g = (here, g2)"
    by (cases "on_provider_event ri ev g")
  obtain zs where rec: "run_request ri items g2 = (zs, err, g')" and ys: "ys = here @ zs"
    using "4.prems" by (simp add: h split: prod.splits)
  note ih = "4.IH"[OF h[symmetric] rec]
  note hf = on_provider_event_follows[OF h]
  show ?case
    unfolding ys using ih hf
    by (simp add: completed_follows_append) blast
qed

lemma drain_queue_no_start: "\<forall>y \<in> set (drain_queue q g). fst y \<noteq> task_start"
  by (induction q) simp_all

lemma completeEvent_no_start: "completeEvent ri ev \<noteq> Some task_start"
  using completeEvent_Some[of ri ev task_start] by (auto simp: is_terminal_def)

lemma on_provider_event_no_start:
  assumes "on_provider_event ri ev g = (here, g2)"
  shows "\<forall>y \<in> set here. fst y \<noteq> task_start"
proof (cases "completeEvent ri ev")
  case None
  then have "here = drain_queue (queue g) g @ [(provider ev, g\<lparr>queue := []\<rparr>)]"
    using assms by (auto simp: on_provider_event_def Let_def)
  then show ?thesis using drain_queue_no_start[of "queue g" g] by simp
next
  case (Some ce)
  then have ce: "ce \<noteq> task_start" using completeEvent_no_start[of ri ev] by auto
  from Some have "here = drain_queue (queue g) g @
        [(provider ev, g\<lparr>queue := []\<rparr>),
         (ce, g\<lparr>queue := [], isComplete := True, taskCompleted := True\<rparr>)]"
    using assms by (auto simp: on_provider_event_def Let_def)
  then show ?thesis using drain_queue_no_start[of "queue g" g] ce by simp
qed

lemma run_request_no_start:
  "run_request ri items g = (ys, err, g') \<Longrightarrow> \<forall>y \<in> set ys. fst y \<noteq> task_start"
proof (induction ri items g arbitrary: ys err g' rule: run_request.induct)
  case (4 ri ev items g)
  obtain here g2 where h: "on_provider_event ri ev g = (here, g2)"
    by (cases "on_provider_event ri ev g")
  obtain zs where rec: "run_request ri items g2 = (zs, err, g')" and ys: "ys = here @ zs"
    using "4.prems" by (simp add: h split: prod.splits)
  show ?case unfolding ys
    using "4.IH"[OF h[symmetric] rec] on_provider_event_no_start[OF h] by auto
qed auto

lemma run_loop_follows:
  "run_loop ri reqs g = (ys, ex) \<Longrightarrow>
   completed_follows (taskCompleted g) ys
   \<and> (\<forall>y \<in> set ys. taskStartEmitted (snd y) = taskStartEmitted g \<and> fst y \<noteq> task_start)
   \<and> (ri \<longrightarrow> \<not> any_terminal ys)
   \<and> (case ex of
         Finished g' \<Rightarrow> taskStartEmitted g' = taskStartEmitted g
                        \<and> taskCompleted g' = (taskCompleted g \<or> any_terminal ys)
                        \<and> (isComplete g \<or> taskCompleted g')
       | Threw m g' \<Rightarrow> taskStartEmitted g' = taskStartEmitted g
                       \<and> taskCompleted g' = (taskCompleted g \<or> any_terminal ys)
       | Awaiting \<Rightarrow> True)"
proof (induction reqs arbitrary: g ys ex)
  case Nil
  then show ?case by (auto simp: any_terminal_def)
next
  case (Cons req reqs)
  let ?before = "drain_queue (queue g) g"
  let ?g1 = "g\<lparr>queue := []\<rparr>"
  obtain rs err g2 where rr: "run_request ri req ?g1 = (rs, err, g2)"
    by (cases "run_request ri req ?g1")
  note f = run_request_follows[OF rr] run_request_no_start[OF rr]
  note b = drain_queue_follows[where g = g and q = "queue g"] drain_queue_no_start[of "queue g" g]
  show ?case
  proof (cases err)
    case (Some m)
    then have "ys = ?before @ rs" "ex = Threw m g2"
      using Cons.prems by (simp_all add: rr Let_def)
    then show ?thesis using f b
      by (auto simp: completed_follows_append)
  next
    case None
    let ?after = "drain_queue (queue g2) g2"
    let ?g3 = "g2\<lparr>queue := []\<rparr>"
    note a = drain_queue_follows[where g = g2 and q = "queue g2"] drain_queue_no_start[of "queue g2" g2]
    show ?thesis
    proof (cases "isComplete g2")
      case True
      then have "ys = ?before @ rs @ ?after" "ex = Finished ?g3"
        using Cons.prems None by (simp_all add: rr Let_def)
      then show ?thesis using f b a True
        by (auto simp: completed_follows_append)
    next
      case False
      then obtain zs where rl: "run_loop ri reqs ?g3 = (zs, ex)"
        and ys: "ys = ?before @ rs @ ?after @ zs"
        using Cons.prems None by (auto simp: rr Let_def split: prod.splits)
      note ih = Cons.IH[OF rl]
      show ?thesis
        unfolding ys using f b a ih False
        by (cases ex) (auto simp: completed_follows_append)
    qed
  qed
qed

lemma completed_follows_nth:
  "completed_follows c ys \<Longrightarrow> 0 < k \<Longrightarrow> k \<le> length ys \<Longrightarrow>
   taskCompleted (snd (ys ! (k - 1))) = (c \<or> any_terminal (take k ys))"
proof (induction ys arbitrary: c k)
  case Nil
  then show ?case by simp
next
  case (Cons y ys)
  obtain e g where y: "y = (e, g)" by (cases y)
  show ?case
  proof (cases "k = 1")
    case True
    with Cons.prems show ?thesis by (simp add: y any_terminal_def)
  next
    case False
    with Cons.prems obtain j where k: "k = Suc j" and j: "0 < j" "j \<le> length ys"
      by (cases k) auto
    from Cons.prems(1) have "completed_follows (c \<or> is_terminal e) ys" by (simp add: y)
    from Cons.IH[OF this j] j show ?thesis
      by (auto simp: k y any_terminal_def)
  qed
qed

lemma any_terminal_events:
  "any_terminal ys = (\<exists>e \<in> set (map fst ys). is_terminal e)"
  by (auto simp: any_terminal_def list_ex_iff)

lemma try_block_started:
  assumes "try_block False reqs = (ys, ex)"
  shows "\<exists>zs. ys = (task_start, \<lparr>taskStartEmitted = False, taskCompleted = False,
                      isComplete = False, queue = []\<rparr>) # zs
        \<and> run_loop False reqs \<lparr>taskStartEmitted = True, taskCompleted = False,
                      isComplete = False, queue = []\<rparr> = (zs, ex)"
  using assms by (auto simp: try_block_def Let_def split: prod.splits)

lemma try_block_follows:
  assumes "try_block False reqs = (ys, ex)"
  shows "completed_follows False ys"
    and "\<forall>j. 0 < j \<and> j < length ys \<longrightarrow> taskStartEmitted (snd (ys ! j))"
    and "case ex of
           Finished g \<Rightarrow> taskStartEmitted g \<and> taskCompleted g
         | Threw m g \<Rightarrow> taskStartEmitted g \<and> taskCompleted g = any_terminal ys
         | Awaiting \<Rightarrow> True"
proof -
  from try_block_started[OF assms] obtain zs where
    ys: "ys = (task_start, \<lparr>taskStartEmitted = False, taskCompleted = False,
                      isComplete = False, queue = []\<rparr>) # zs"
    and rl: "run_loop False reqs \<lparr>taskStartEmitted = True, taskCompleted = False,
                      isComplete = False, queue = []\<rparr> = (zs, ex)"
    by blast
  note f = run_loop_follows[OF rl]
  show "completed_follows False ys"
    using f by (simp add: ys is_terminal_def)
  show "\<forall>j. 0 < j \<and> j < length ys \<longrightarrow> taskStartEmitted (snd (ys ! j))"
  proof (intro allI impI)
    fix j assume j: "0 < j \<and> j < length ys"
    then obtain i where "j = Suc i" "i < length zs" by (cases j) (auto simp: ys)
    then show "taskStartEmitted (snd (ys ! j))" using f by (simp add: ys)
  qed
  show "case ex of
           Finished g \<Rightarrow> taskStartEmitted g \<and> taskCompleted g
         | Threw m g \<Rightarrow> taskStartEmitted g \<and> taskCompleted g = any_terminal ys
         | Awaiting \<Rightarrow> True"
    using f by (cases ex) (auto simp: ys any_terminal_def is_terminal_def)
qed

lemma finally_after_catch:
  "catch_block ri m g = (cs, g') \<Longrightarrow> finally_block ri g' = map meta (queue g')"
  by (auto simp: catch_block_def finally_block_def split: if_splits)

lemma finally_after_loop:
  assumes "try_block ri reqs = (ys, Finished g)"
  shows "finally_block ri g = map meta (queue g)"
proof (cases ri)
  case True
  then show ?thesis by (simp add: finally_block_def)
next
  case False
  with try_block_follows(3)[of reqs ys "Finished g"] assms have "taskCompleted g" by simp
  then show ?thesis by (simp add: finally_block_def)
qed

text \<open>
  When the \<^verbatim>\<open>finally\<close> block is entered because the loop has finished or an error
  was thrown, a terminal event has been yielded already and the block only drains the
  queue: whatever the provider does, the generator that is resumed to its end never
  yields the synthesized event.
\<close>

lemma taskGenerator_never_synthesizes:
  "taskGenerator ri reqs =
     map fst (fst (protected_blocks ri reqs)) @
     (case snd (protected_blocks ri reqs) of Some g \<Rightarrow> map meta (queue g) | None \<Rightarrow> [])"
proof -
  obtain ys ex where tb: "try_block ri reqs = (ys, ex)" by (cases "try_block ri reqs")
  show ?thesis
  proof (cases ex)
    case (Finished g)
    with tb finally_after_loop[of ri reqs ys g] show ?thesis
      by (simp add: taskGenerator_def protected_blocks_def)
  next
    case (Threw m g)
    obtain cs g' where cb: "catch_block ri m g = (cs, g')" by (cases "catch_block ri m g")
    with tb Threw finally_after_catch[OF cb] show ?thesis
      by (simp add: taskGenerator_def protected_blocks_def)
  next
    case Awaiting
    with tb show ?thesis by (simp add: taskGenerator_def protected_blocks_def)
  qed
qed

text \<open>
  The only way into the \<^verbatim>\<open>finally\<close> block with the start event emitted and no
  terminal event yielded is the consumer leaving its loop. Then the caller has received
  the first \<open>k\<close> events, none of them terminal, and receives nothing more; the wrapper's
  call of \<^verbatim>\<open>return()\<close> gets the first queued meta event, or the synthesized event
  when the queue is empty, and drops it.
\<close>

lemma protected_blocks_prefix:
  "\<exists>cs fin. protected_blocks ri reqs = (fst (try_block ri reqs) @ cs, fin)"
proof -
  obtain ys ex where tb: "try_block ri reqs = (ys, ex)" by (cases "try_block ri reqs")
  show ?thesis
  proof (cases ex)
    case (Finished g)
    then show ?thesis by (simp add: protected_blocks_def tb)
  next
    case (Threw m g)
    obtain cs g' where cb: "catch_block ri m g = (cs, g')" by (cases "catch_block ri m g")
    with Threw show ?thesis by (simp add: protected_blocks_def tb)
  next
    case Awaiting
    then show ?thesis by (simp add: protected_blocks_def tb)
  qed
qed

lemma abandoned_run:
  assumes "1 < k" and "k \<le> length (fst (try_block False reqs))"
    and "\<forall>e \<in> set (take k (map fst (fst (try_block False reqs)))). \<not> is_terminal e"
  shows "wrappedGenerator False reqs (Some k) =
           (take k (map fst (fst (try_block False reqs))),
            take 1 (map meta (queue (snd (fst (try_block False reqs) ! (k - 1)))) @ [synthesized]))"
proof -
  obtain ys ex where tb: "try_block False reqs = (ys, ex)" by (cases "try_block False reqs")
  note f = try_block_follows[OF tb]
  from assms have k: "0 < k" "k \<le> length ys" "0 < k - 1 \<and> k - 1 < length ys"
    by (auto simp: tb)
  have "\<not> any_terminal (take k ys)"
    using assms(3) by (simp add: tb any_terminal_events take_map)
  then have c: "\<not> taskCompleted (snd (ys ! (k - 1)))"
    using completed_follows_nth[OF f(1) k(1,2)] by simp
  have s: "taskStartEmitted (snd (ys ! (k - 1)))" using f(2) k(3) by blast
  from protected_blocks_prefix[of False reqs] obtain cs fin where
    pb: "protected_blocks False reqs = (ys @ cs, fin)"
    by (auto simp: tb)
  have nth: "(ys @ cs) ! (k - 1) = ys ! (k - 1)"
    using k(3) by (simp add: nth_append)
  have ev: "take k (taskGenerator False reqs) = take k (map fst ys)"
    using k(2) by (simp add: taskGenerator_def pb)
  have fb: "finally_block False (snd (ys ! (k - 1))) =
      map meta (queue (snd (ys ! (k - 1)))) @ [synthesized]"
    using c s by (simp add: finally_block_def)
  have "generator_return False reqs k =
      take 1 (finally_block False (snd ((ys @ cs) ! (k - 1))))"
    unfolding generator_return_def pb using k(1,2) by simp
  then have ret: "generator_return False reqs k =
      take 1 (map meta (queue (snd (ys ! (k - 1)))) @ [synthesized])"
    by (simp only: nth fb)
  show ?thesis
    by (simp add: wrappedGenerator_def ev ret tb)
qed

text \<open>
  Claim C8, evaluated. A task emits its start event and one provider event, and the
  consumer leaves its \<^verbatim>\<open>for await\<close> loop there, before any terminal event. The
  caller of \<^verbatim>\<open>runTask\<close> has received those two events and receives nothing more: the
  synthesized \<^verbatim>\<open>task_fatal_error\<close> is yielded to the wrapper's call of
  \<^verbatim>\<open>return()\<close>, which drops it. When meta events are still queued at that moment, the
  first of them is what is yielded and dropped, and the synthesized event is not
  produced at all.
\<close>

theorem abandoned_task_receives_no_terminal_event:
  "wrappedGenerator False [[Event other_event, Event response_output]] (Some 2) =
     ([task_start, provider other_event],
      [task_fatal_error ''Task ended without explicit completion''])
   \<and> wrappedGenerator False two_queued (Some 2) =
     ([task_start, meta (example_event 100)], [meta (example_event 101)])
   \<and> taskGenerator False [[Event response_output, Throw ''boom'']] =
     [task_start, provider response_output,
      task_fatal_error ''Task failed with error: boom'',
      error_event ''Agent execution failed: boom'']
   \<and> wrappedGenerator False [[Event response_output]] (Some 1) = ([task_start], [])"
  by code_simp


end
